theory Spec2Isabelle
  imports Complex_Main "HOL-Library.AList" "HOL-Library.Sublist"
begin

section \<open>JavaScript values used by the converter\<close>

text \<open>
  The converter and the validator are TypeScript running on JavaScript values. Numbers are
  modelled as exact rationals together with the three special values of the language;
  rounding to double precision and the negative zero are not modelled. Strings are lists
  of characters; only ASCII letters, digits and white space are classified.
\<close>

datatype jsnum = Num rat | PInf | NInf | NaN

text \<open>A value of TypeScript type \<open>string | number\<close>.\<close>

datatype str_or_num = Str string | Numv jsnum

text \<open>A value of TypeScript type \<open>string | string[]\<close>.\<close>

datatype str_or_list = One string | Many "string list"

text \<open>A value of type \<open>string | number | boolean | null\<close> (environment mapping values).\<close>

datatype scalar = SStr string | SNum jsnum | SBool bool | SNull

subsection \<open>Truthiness\<close>

fun truthy_num :: "jsnum \<Rightarrow> bool" where
  "truthy_num (Num r) = (r \<noteq> 0)"
| "truthy_num NaN = False"
| "truthy_num PInf = True"
| "truthy_num NInf = True"

definition truthy_str :: "string \<Rightarrow> bool" where
  "truthy_str s = (s \<noteq> [])"

fun truthy_sn :: "str_or_num \<Rightarrow> bool" where
  "truthy_sn (Str s) = truthy_str s"
| "truthy_sn (Numv n) = truthy_num n"

text \<open>Arrays and objects are always truthy, so a \<open>string | string[]\<close> is falsy only as \<open>""\<close>.\<close>

fun truthy_sl :: "str_or_list \<Rightarrow> bool" where
  "truthy_sl (One s) = truthy_str s"
| "truthy_sl (Many xs) = True"

text \<open>
  An optional property is \<open>None\<close> when it is missing (\<open>undefined\<close>); \<open>opt_truthy\<close> is the
  test \<open>if (o.p)\<close> and \<open>or_default\<close> is \<open>o.p || d\<close>.
\<close>

definition opt_truthy :: "('a \<Rightarrow> bool) \<Rightarrow> 'a option \<Rightarrow> bool" where
  "opt_truthy t v = (case v of None \<Rightarrow> False | Some a \<Rightarrow> t a)"

definition or_default :: "('a \<Rightarrow> bool) \<Rightarrow> 'a option \<Rightarrow> 'a \<Rightarrow> 'a" where
  "or_default t v d = (case v of None \<Rightarrow> d | Some a \<Rightarrow> if t a then a else d)"

definition truthy_bool :: "bool \<Rightarrow> bool" where
  "truthy_bool b = b"

subsection \<open>Arithmetic\<close>

text \<open>\<open>x * c\<close> and \<open>x / c\<close> for a positive finite constant \<open>c\<close> (1000, 1024 and the unit table).\<close>

fun js_times :: "jsnum \<Rightarrow> rat \<Rightarrow> jsnum" where
  "js_times (Num r) c = Num (r * c)"
| "js_times x c = x"

fun js_div :: "jsnum \<Rightarrow> rat \<Rightarrow> jsnum" where
  "js_div (Num r) c = Num (r / c)"
| "js_div x c = x"

text \<open>\<open>Math.round\<close>: the nearest integer, halves rounded towards plus infinity.\<close>

fun js_round :: "jsnum \<Rightarrow> jsnum" where
  "js_round (Num r) = Num (of_int \<lfloor>r + 1 / 2\<rfloor>)"
| "js_round x = x"

text \<open>\<open>Math.max\<close> of two arguments: \<open>NaN\<close> if either is \<open>NaN\<close>.\<close>

fun js_max :: "jsnum \<Rightarrow> jsnum \<Rightarrow> jsnum" where
  "js_max NaN y = NaN"
| "js_max x NaN = NaN"
| "js_max PInf y = PInf"
| "js_max x PInf = PInf"
| "js_max NInf y = y"
| "js_max x NInf = x"
| "js_max (Num a) (Num b) = Num (max a b)"

fun js_isNaN :: "jsnum \<Rightarrow> bool" where
  "js_isNaN NaN = True"
| "js_isNaN x = False"

text \<open>The comparison \<open>x <= 0\<close>.\<close>

fun js_le_zero :: "jsnum \<Rightarrow> bool" where
  "js_le_zero (Num r) = (r \<le> 0)"
| "js_le_zero NInf = True"
| "js_le_zero x = False"

subsection \<open>Characters and strings\<close>

definition is_digit :: "char \<Rightarrow> bool" where
  "is_digit c = (48 \<le> (of_char c :: nat) \<and> (of_char c :: nat) \<le> 57)"

definition digit_val :: "char \<Rightarrow> int" where
  "digit_val c = of_char c - 48"

text \<open>White space and line terminators, as \<open>\s\<close>, \<open>trim\<close>, \<open>parseInt\<close> and \<open>parseFloat\<close> see them.\<close>

definition is_space :: "char \<Rightarrow> bool" where
  "is_space c = ((of_char c :: nat) \<in> {9, 10, 11, 12, 13, 32})"

definition lower_char :: "char \<Rightarrow> char" where
  "lower_char c =
     (if 65 \<le> (of_char c :: nat) \<and> (of_char c :: nat) \<le> 90
      then char_of ((of_char c :: nat) + 32) else c)"

definition toLowerCase :: "string \<Rightarrow> string" where
  "toLowerCase s = map lower_char s"

text \<open>The value of a string of decimal digits.\<close>

definition dec_val :: "string \<Rightarrow> int" where
  "dec_val ds = foldl (\<lambda>a c. 10 * a + digit_val c) 0 ds"

text \<open>The decimal text of a non-negative integer.\<close>

function int_str :: "int \<Rightarrow> string" where
  "int_str i =
     (if i < 10 then [char_of (48 + i)]
      else int_str (i div 10) @ [char_of (48 + i mod 10)])"
  by pat_completeness auto
termination
  by (relation "measure nat") auto

declare int_str.simps [simp del]

text \<open>The decimal text of an array index, as a template literal prints it.\<close>

definition nat_str :: "nat \<Rightarrow> string" where
  "nat_str n = int_str (int n)"

text \<open>\<open>s.split(sep)\<close> for a separator of one character; the result is never empty.\<close>

fun split_on :: "char \<Rightarrow> string \<Rightarrow> string list" where
  "split_on sep [] = [[]]"
| "split_on sep (c # cs) =
     (if c = sep then [] # split_on sep cs
      else (case split_on sep cs of
              [] \<Rightarrow> [[c]]
            | p # ps \<Rightarrow> (c # p) # ps))"

text \<open>\<open>xs.join(sep)\<close>.\<close>

fun join :: "string \<Rightarrow> string list \<Rightarrow> string" where
  "join sep [] = []"
| "join sep [x] = x"
| "join sep (x # y # ys) = x @ sep @ join sep (y # ys)"

text \<open>\<open>s.split(/\s+/)\<close>: the pieces between maximal runs of white space.\<close>

function split_ws :: "string \<Rightarrow> string list" where
  "split_ws [] = [[]]"
| "split_ws (c # cs) =
     (if is_space c then [] # split_ws (dropWhile is_space cs)
      else (case split_ws cs of
              [] \<Rightarrow> [[c]]
            | p # ps \<Rightarrow> (c # p) # ps))"
  by pat_completeness auto
termination
  by (relation "measure length") (auto simp: length_dropWhile_le less_Suc_eq_le)

definition trim :: "string \<Rightarrow> string" where
  "trim s = rev (dropWhile is_space (rev (dropWhile is_space s)))"

definition startsWith :: "string \<Rightarrow> string \<Rightarrow> bool" where
  "startsWith s p = prefix p s"

text \<open>\<open>s.includes(sub)\<close>.\<close>

fun str_includes :: "string \<Rightarrow> string \<Rightarrow> bool" where
  "str_includes [] sub = (sub = [])"
| "str_includes (c # cs) sub = (prefix sub (c # cs) \<or> str_includes cs sub)"

text \<open>A text between apostrophes, as the messages quote names.\<close>

definition quoted :: "string \<Rightarrow> string" where
  "quoted s = [CHR 0x27] @ s @ [CHR 0x27]"

text \<open>\<open>xs[i]\<close> on an array: \<open>undefined\<close> out of range.\<close>

definition nth_opt :: "'a list \<Rightarrow> nat \<Rightarrow> 'a option" where
  "nth_opt xs i = (if i < length xs then Some (xs ! i) else None)"

subsection \<open>Numbers and text\<close>

text \<open>
  \<open>String(n)\<close> for a number. Finite numbers are printed by their decimal expansion, of
  which at most twenty fractional digits are produced; the exponent notation of very large
  and very small doubles is not modelled.
\<close>

fun frac_digits :: "nat \<Rightarrow> rat \<Rightarrow> string" where
  "frac_digits 0 f = []"
| "frac_digits (Suc n) f =
     (if f = 0 then []
      else char_of (48 + \<lfloor>f * 10\<rfloor>) # frac_digits n (f * 10 - of_int \<lfloor>f * 10\<rfloor>))"

definition pos_rat_str :: "rat \<Rightarrow> string" where
  "pos_rat_str r =
     (let i = \<lfloor>r\<rfloor>; f = r - of_int i
      in int_str i @ (if f = 0 then [] else CHR ''.'' # frac_digits 20 f))"

fun num_str :: "jsnum \<Rightarrow> string" where
  "num_str (Num r) = (if r < 0 then CHR ''-'' # pos_rat_str (- r) else pos_rat_str r)"
| "num_str PInf = ''Infinity''"
| "num_str NInf = ''-Infinity''"
| "num_str NaN = ''NaN''"

text \<open>\<open>String(v)\<close>, and the interpolation \<open>${v}\<close>, for a \<open>string | number\<close>.\<close>

fun sn_str :: "str_or_num \<Rightarrow> string" where
  "sn_str (Str s) = s"
| "sn_str (Numv n) = num_str n"

text \<open>\<open>String(v ?? '')\<close> for an environment value.\<close>

fun scalar_str :: "scalar \<Rightarrow> string" where
  "scalar_str (SStr s) = s"
| "scalar_str (SNum n) = num_str n"
| "scalar_str (SBool b) = (if b then ''true'' else ''false'')"
| "scalar_str SNull = []"

text \<open>
  \<open>parseInt(s)\<close> without a radix: leading white space, an optional sign, an optional
  \<open>0x\<close> prefix selecting base sixteen, then the longest run of digits; \<open>NaN\<close> if that
  run is empty.
\<close>

definition is_hex_digit :: "char \<Rightarrow> bool" where
  "is_hex_digit c =
     (is_digit c \<or> (97 \<le> (of_char c :: nat) \<and> (of_char c :: nat) \<le> 102)
      \<or> (65 \<le> (of_char c :: nat) \<and> (of_char c :: nat) \<le> 70))"

definition hex_digit_val :: "char \<Rightarrow> int" where
  "hex_digit_val c =
     (if is_digit c then digit_val c
      else if 97 \<le> (of_char c :: nat) then of_char c - 87 else of_char c - 55)"

definition hex_val :: "string \<Rightarrow> int" where
  "hex_val ds = foldl (\<lambda>a c. 16 * a + hex_digit_val c) 0 ds"

definition strip_sign :: "string \<Rightarrow> bool \<times> string" where
  "strip_sign s =
     (case s of
        c # cs \<Rightarrow> if c = CHR ''-'' then (True, cs) else if c = CHR ''+'' then (False, cs) else (False, s)
      | [] \<Rightarrow> (False, s))"

definition with_sign :: "bool \<Rightarrow> rat \<Rightarrow> jsnum" where
  "with_sign neg r = Num (if neg then - r else r)"

definition parseInt :: "string \<Rightarrow> jsnum" where
  "parseInt s =
     (let (neg, t) = strip_sign (dropWhile is_space s)
      in if prefix ''0x'' t \<or> prefix ''0X'' t
         then (let ds = takeWhile is_hex_digit (drop 2 t)
               in if ds = [] then NaN else with_sign neg (of_int (hex_val ds)))
         else (let ds = takeWhile is_digit t
               in if ds = [] then NaN else with_sign neg (of_int (dec_val ds))))"

text \<open>
  \<open>parseFloat(s)\<close>: leading white space, an optional sign, then \<open>Infinity\<close> or the longest
  prefix that is a decimal literal (digits, an optional fraction, an optional exponent);
  \<open>NaN\<close> if there is none.
\<close>

definition exponent_part :: "string \<Rightarrow> int" where
  "exponent_part s =
     (case s of
        [] \<Rightarrow> 0
      | c # cs \<Rightarrow>
          if c = CHR ''e'' \<or> c = CHR ''E''
          then (let (neg, t) = strip_sign cs; ds = takeWhile is_digit t
                in if ds = [] then 0 else if neg then - dec_val ds else dec_val ds)
          else 0)"

definition pow10 :: "int \<Rightarrow> rat" where
  "pow10 e = (if 0 \<le> e then 10 ^ nat e else 1 / 10 ^ nat (- e))"

definition parseFloat :: "string \<Rightarrow> jsnum" where
  "parseFloat s =
     (let (neg, t) = strip_sign (dropWhile is_space s)
      in if prefix ''Infinity'' t then (if neg then NInf else PInf)
         else (let ip = takeWhile is_digit t;
                   r1 = dropWhile is_digit t;
                   fp = (case r1 of [] \<Rightarrow> [] | c # cs \<Rightarrow> if c = CHR ''.'' then takeWhile is_digit cs else []);
                   r2 = (case r1 of [] \<Rightarrow> [] | c # cs \<Rightarrow> if c = CHR ''.'' then dropWhile is_digit cs else r1)
               in if ip = [] \<and> fp = [] then NaN
                  else with_sign neg
                         ((of_int (dec_val ip) + of_int (dec_val fp) / 10 ^ length fp)
                          * pow10 (exponent_part r2))))"

text \<open>\<open>parseFloat(v)\<close> on a \<open>string | number\<close>: a number is converted to text and read back.\<close>

fun parseFloat_sn :: "str_or_num \<Rightarrow> jsnum" where
  "parseFloat_sn (Str s) = parseFloat s"
| "parseFloat_sn (Numv n) = n"


section \<open>The Compose document\<close>

text \<open>
  The document is the tree that the YAML parser returns, typed as the interfaces of
  \<open>types/compose\<close> say, with the fields that the validator and the converter read. A
  mapping is the list of its own entries in the order of \<open>Object.entries\<close>; its keys are
  distinct. Properties that JavaScript objects inherit are not part of the model. An
  entry written without a value in YAML is \<open>null\<close>: such entries are \<open>None\<close> in the
  mappings of services, networks, volumes, configs and secrets.
\<close>

datatype build = BuildStr string | BuildObj

fun truthy_build :: "build \<Rightarrow> bool" where
  "truthy_build (BuildStr s) = truthy_str s"
| "truthy_build BuildObj = True"

record port_long =
  port_target :: "jsnum option"
  port_published :: "str_or_num option"

datatype port = PortStr string | PortObj port_long

record volume_long =
  vol_type :: "string option"
  vol_source :: "string option"
  vol_target :: "string option"
  vol_read_only :: "bool option"

datatype service_volume = VolStr string | VolObj volume_long

record device_long =
  dev_source :: "string option"
  dev_target :: "string option"
  dev_permissions :: "string option"

datatype device = DevStr string | DevObj device_long

datatype environment = EnvList "string list" | EnvMap "(string \<times> scalar) list"

datatype labels = LabelList "string list" | LabelMap "(string \<times> string) list"

datatype extra_hosts = HostList "string list" | HostMap "(string \<times> string) list"

text \<open>
  \<open>depends_on\<close> and \<open>networks\<close> of a service: an array of names, or a mapping of which
  only the keys are read.
\<close>

datatype name_refs = NameList "string list" | NameKeys "string list"

fun ref_names :: "name_refs \<Rightarrow> string list" where
  "ref_names (NameList xs) = xs"
| "ref_names (NameKeys ks) = ks"

record healthcheck =
  hc_test :: "str_or_list option"
  hc_interval :: "string option"
  hc_timeout :: "string option"
  hc_disable :: "bool option"

text \<open>
  Of \<open>devices\<close> and \<open>generic_resources\<close> only the presence is read (an array is truthy).
\<close>

record resource_limit =
  lim_cpus :: "str_or_num option"
  lim_memory :: "str_or_num option"
  lim_devices :: bool

record resource_reservation =
  rsv_cpus :: "str_or_num option"
  rsv_memory :: "str_or_num option"
  rsv_devices :: bool
  rsv_generic_resources :: bool

record compose_resources =
  limits :: "resource_limit option"
  reservations :: "resource_reservation option"

record restart_policy_config =
  rp_condition :: "string option"
  rp_delay :: "string option"
  rp_max_attempts :: "jsnum option"
  rp_window :: "string option"

record placement =
  pl_constraints :: "string list option"

record deploy =
  replicas :: "jsnum option"
  resources :: "compose_resources option"
  restart_policy :: "restart_policy_config option"
  placement :: "placement option"

record logging =
  log_driver :: "string option"
  log_options :: "(string \<times> string) list option"

record ref_long =
  ref_source :: string
  ref_target :: "string option"

datatype config_ref = RefStr string | RefObj ref_long

record service =
  svc_image :: "string option"
  build :: "build option"
  hostname :: "string option"
  command :: "str_or_list option"
  entrypoint :: "str_or_list option"
  environment :: "environment option"
  working_dir :: "string option"
  user :: "string option"
  ports :: "port list option"
  expose :: "string list option"
  networks :: "name_refs option"
  dns :: "str_or_list option"
  dns_search :: "str_or_list option"
  extra_hosts :: "extra_hosts option"
  volumes :: "service_volume list option"
  deploy :: "deploy option"
  mem_limit :: "str_or_num option"
  cpus :: "str_or_num option"
  cap_add :: "string list option"
  cap_drop :: "string list option"
  devices :: "device list option"
  security_opt :: "string list option"
  privileged :: "bool option"
  read_only :: "bool option"
  healthcheck :: "healthcheck option"
  depends_on :: "name_refs option"
  restart :: "string option"
  logging :: "logging option"
  labels :: "labels option"
  configs :: "config_ref list option"
  secrets :: "config_ref list option"
  pid :: "string option"
  network_mode :: "string option"

text \<open>\<open>external\<close> is \<open>boolean | {name}\<close>; an object is truthy.\<close>

datatype external = ExtBool bool | ExtObj

fun truthy_external :: "external \<Rightarrow> bool" where
  "truthy_external (ExtBool b) = b"
| "truthy_external ExtObj = True"

record network_def =
  net_driver :: "string option"
  net_external :: "external option"

record volume_def =
  vdef_driver :: "string option"
  vdef_external :: "external option"

record config_def =
  cdef_file :: "string option"
  cdef_content :: "string option"
  cdef_external :: "external option"

record secret_def =
  sdef_file :: "string option"
  sdef_external :: "external option"

record constraint_long =
  cl_attribute :: "string option"
  cl_operator :: "string option"
  cl_value :: "string option"

datatype constraint_in = ConStr string | ConObj constraint_long

text \<open>
  The document. \<open>version\<close> is declared a string, but an unquoted \<open>version: 3.8\<close> arrives as
  a number, which \<open>parseCompose\<close> and the schema treat differently; \<open>c_x_constraints\<close> is
  \<open>x.nomad.constraints\<close> when that is an array.
\<close>

record compose_file =
  c_version :: "str_or_num option"
  c_name :: "string option"
  c_services :: "(string \<times> service option) list option"
  c_networks :: "(string \<times> network_def option) list option"
  c_volumes :: "(string \<times> volume_def option) list option"
  c_configs :: "(string \<times> config_def option) list option"
  c_secrets :: "(string \<times> secret_def option) list option"
  c_x_constraints :: "constraint_in list option"

text \<open>
  \<open>m?.[k]\<close> on an optional mapping with nullable entries: the entry's value, \<open>None\<close> when
  the mapping or the key is missing or the value is \<open>null\<close> (all of them falsy).
\<close>

definition lookup_entry :: "(string \<times> 'a option) list option \<Rightarrow> string \<Rightarrow> 'a option" where
  "lookup_entry m k =
     (case m of
        None \<Rightarrow> None
      | Some es \<Rightarrow> (case map_of es k of None \<Rightarrow> None | Some v \<Rightarrow> v))"

section \<open>The Nomad job model\<close>

record nomad_port =
  port_static :: "jsnum option"
  port_to :: "jsnum option"

record nomad_network =
  nw_mode :: string
  nw_port :: "(string \<times> nomad_port) list"

record nomad_volume =
  nvol_type :: string
  nvol_source :: "string option"
  nvol_read_only :: bool

record volume_mount =
  mnt_volume :: string
  mnt_destination :: "string option"
  mnt_read_only :: bool

record nomad_check =
  chk_type :: string
  chk_interval :: string
  chk_timeout :: string
  chk_command :: "string option"
  chk_args :: "string list option"

text \<open>
  A service-discovery entry. Its \<open>check\<close> property, when set, is an array whose elements
  are what \<open>convertHealthCheck\<close> returned: a check, or \<open>null\<close> (\<open>None\<close>).
\<close>

record nomad_service =
  srv_name :: string
  srv_port :: "string option"
  srv_tags :: "string list"
  srv_check :: "nomad_check option list option"

record template =
  tpl_destination :: string
  tpl_embedded_tmpl :: string
  tpl_change_mode :: string

record nomad_restart =
  rst_attempts :: jsnum
  rst_delay :: string
  rst_interval :: string
  rst_mode :: string

record nomad_resources =
  res_cpu :: jsnum
  res_memory :: jsnum

record constraint =
  con_attribute :: string
  con_operator :: string
  con_value :: string

record nomad_device =
  host_path :: string
  container_path :: string
  cgroup_permissions :: string

record nomad_logging =
  nlog_type :: string
  nlog_config :: "(string \<times> string) list"

record docker_config =
  cfg_image :: "string option"
  cfg_command :: "string option"
  cfg_args :: "string list option"
  cfg_entrypoint :: "string list option"
  cfg_work_dir :: "string option"
  cfg_user :: "string option"
  cfg_hostname :: "string option"
  cfg_privileged :: "bool option"
  cfg_readonly_rootfs :: "bool option"
  cfg_security_opt :: "string list option"
  cfg_cap_add :: "string list option"
  cfg_cap_drop :: "string list option"
  cfg_devices :: "nomad_device list option"
  cfg_labels :: "(string \<times> string) list option"
  cfg_dns_servers :: "string list option"
  cfg_dns_search :: "str_or_list option"
  cfg_extra_hosts :: "string list option"
  cfg_logging :: "nomad_logging option"
  cfg_network_mode :: "string option"

record task =
  tsk_driver :: string
  tsk_config :: docker_config
  tsk_env :: "(string \<times> string) list option"
  tsk_resources :: "nomad_resources option"
  tsk_template :: "template list option"
  tsk_constraint :: "constraint list option"
  tsk_volume_mount :: "(string \<times> volume_mount) list option"

record task_group =
  tg_count :: jsnum
  tg_task :: "(string \<times> task) list"
  tg_network :: "nomad_network option"
  tg_volume :: "(string \<times> nomad_volume) list option"
  tg_service :: "nomad_service list option"
  tg_restart :: "nomad_restart option"

record job_spec =
  job_id :: string
  job_name :: string
  job_type :: string
  job_region :: string
  job_namespace :: string
  job_datacenters :: "string list"
  job_priority :: jsnum
  job_group :: "(string \<times> task_group) list"
  job_constraint :: "constraint list option"

text \<open>\<open>NomadJob\<close>: the \<open>job\<close> mapping from the job name to its specification.\<close>

type_synonym nomad_job = "(string \<times> job_spec) list"

text \<open>The two diagnostic arrays, of the converter object and of every result.\<close>

record diagnostics =
  warnings :: "string list"
  errors :: "string list"

record conversion_result = diagnostics +
  hcl :: string
  nomadJob :: nomad_job

record validation_result = diagnostics +
  isValid :: bool

definition push_warning :: "string \<Rightarrow> diagnostics \<Rightarrow> diagnostics" where
  "push_warning w st = st\<lparr>warnings := warnings st @ [w]\<rparr>"

definition push_error :: "string \<Rightarrow> diagnostics \<Rightarrow> diagnostics" where
  "push_error e st = st\<lparr>errors := errors st @ [e]\<rparr>"

text \<open>\<open>obj[key] = value\<close> on a mapping: a new key is appended, an old one keeps its place.\<close>

definition set_prop :: "string \<Rightarrow> 'v \<Rightarrow> (string \<times> 'v) list \<Rightarrow> (string \<times> 'v) list" where
  "set_prop k v obj = AList.update k v obj"


section \<open>The converter: options\<close>

record resource_defaults =
  rd_cpu :: "jsnum option"
  rd_memory :: "jsnum option"

text \<open>\<open>ConversionOptions\<close>: what the caller passes; every field is optional.\<close>

record conversion_options =
  jobName :: "string option"
  namespace :: "string option"
  datacenters :: "string list option"
  region :: "string option"
  priority :: "jsnum option"
  skipValidation :: "bool option"
  includeComments :: "bool option"
  preserveLabels :: "bool option"
  networkMode :: "string option"
  resourceDefaults :: "resource_defaults option"

text \<open>
  \<open>Required<ConversionOptions>\<close>: the field \<open>this.options\<close> of the converter;
  \<open>opt_default_cpu\<close> and \<open>opt_default_memory\<close> are \<open>resourceDefaults.cpu\<close> and
  \<open>resourceDefaults.memory\<close>.
\<close>

record options =
  opt_jobName :: string
  opt_namespace :: string
  opt_datacenters :: "string list"
  opt_region :: string
  opt_priority :: jsnum
  opt_skipValidation :: bool
  opt_includeComments :: bool
  opt_preserveLabels :: bool
  opt_networkMode :: string
  opt_default_cpu :: jsnum
  opt_default_memory :: jsnum

text \<open>The constructor: every field is \<open>options.f || default\<close>.\<close>

definition Compose2HCLConverter :: "conversion_options \<Rightarrow> options" where
  "Compose2HCLConverter opts =
     \<lparr>opt_jobName = or_default truthy_str (jobName opts) ''docker-compose'',
      opt_namespace = or_default truthy_str (namespace opts) ''default'',
      opt_datacenters = or_default (\<lambda>_. True) (datacenters opts) [''dc1''],
      opt_region = or_default truthy_str (region opts) ''global'',
      opt_priority = or_default truthy_num (priority opts) (Num 50),
      opt_skipValidation = or_default truthy_bool (skipValidation opts) False,
      opt_includeComments = or_default truthy_bool (includeComments opts) True,
      opt_preserveLabels = or_default truthy_bool (preserveLabels opts) True,
      opt_networkMode = or_default truthy_str (networkMode opts) ''bridge'',
      opt_default_cpu = or_default truthy_num (Option.bind (resourceDefaults opts) rd_cpu) (Num 100),
      opt_default_memory =
        or_default truthy_num (Option.bind (resourceDefaults opts) rd_memory) (Num 128)\<rparr>"

section \<open>The converter: one service\<close>

definition getServiceReplicas :: "service \<Rightarrow> jsnum" where
  "getServiceReplicas s = or_default truthy_num (Option.bind (deploy s) replicas) (Num 1)"

subsection \<open>Docker configuration\<close>

text \<open>A property that is copied when it is truthy.\<close>

definition keep_truthy :: "('a \<Rightarrow> bool) \<Rightarrow> 'a option \<Rightarrow> 'a option" where
  "keep_truthy t v = (if opt_truthy t v then v else None)"

definition convertDevice :: "device \<Rightarrow> nomad_device" where
  "convertDevice d =
     (case d of
        DevStr str \<Rightarrow>
          (let parts = split_on CHR '':'' str
           in \<lparr>host_path = hd parts,
               container_path = or_default truthy_str (nth_opt parts 1) (hd parts),
               cgroup_permissions = or_default truthy_str (nth_opt parts 2) ''rwm''\<rparr>)
      | DevObj dv \<Rightarrow>
          \<lparr>host_path = or_default truthy_str (dev_source dv) [],
           container_path = or_default truthy_str (dev_target dv) [],
           cgroup_permissions = or_default truthy_str (dev_permissions dv) ''rwm''\<rparr>)"

text \<open>
  One step of \<open>service.labels.forEach\<close>: \<open>label.split('=', 2)\<close> keeps the first two
  pieces.
\<close>

definition add_label :: "(string \<times> string) list \<Rightarrow> string \<Rightarrow> (string \<times> string) list" where
  "add_label ls label =
     (let parts = take 2 (split_on CHR ''='' label)
      in (case nth_opt parts 1 of
            None \<Rightarrow> ls
          | Some v \<Rightarrow> if truthy_str (hd parts) then set_prop (hd parts) v ls else ls))"

definition convertLabels :: "labels \<Rightarrow> (string \<times> string) list" where
  "convertLabels l =
     (case l of
        LabelList xs \<Rightarrow> foldl add_label [] xs
      | LabelMap es \<Rightarrow> foldl (\<lambda>ls (k, v). set_prop k v ls) [] es)"

definition convertDockerConfig :: "options \<Rightarrow> service \<Rightarrow> docker_config" where
  "convertDockerConfig opts s =
     \<lparr>cfg_image = keep_truthy truthy_str (svc_image s),
      cfg_command =
        (case keep_truthy truthy_sl (command s) of
           None \<Rightarrow> None
         | Some (Many xs) \<Rightarrow> nth_opt xs 0
         | Some (One c) \<Rightarrow> Some c),
      cfg_args =
        (case keep_truthy truthy_sl (command s) of
           Some (Many xs) \<Rightarrow> Some (drop 1 xs)
         | _ \<Rightarrow> None),
      cfg_entrypoint =
        (case keep_truthy truthy_sl (entrypoint s) of
           None \<Rightarrow> None
         | Some (Many xs) \<Rightarrow> Some xs
         | Some (One e) \<Rightarrow> Some [e]),
      cfg_work_dir = keep_truthy truthy_str (working_dir s),
      cfg_user = keep_truthy truthy_str (user s),
      cfg_hostname = keep_truthy truthy_str (hostname s),
      cfg_privileged = keep_truthy truthy_bool (privileged s),
      cfg_readonly_rootfs = keep_truthy truthy_bool (read_only s),
      cfg_security_opt = security_opt s,
      cfg_cap_add =
        (if cap_add s = None \<and> cap_drop s = None then None
         else Some (or_default (\<lambda>_. True) (cap_add s) [])),
      cfg_cap_drop =
        (if cap_add s = None \<and> cap_drop s = None then None
         else Some (or_default (\<lambda>_. True) (cap_drop s) [])),
      cfg_devices = map_option (map convertDevice) (devices s),
      cfg_labels =
        (case labels s of
           None \<Rightarrow> None
         | Some l \<Rightarrow> if opt_preserveLabels opts then Some (convertLabels l) else None),
      cfg_dns_servers =
        (case keep_truthy truthy_sl (dns s) of
           None \<Rightarrow> None
         | Some (Many xs) \<Rightarrow> Some xs
         | Some (One d) \<Rightarrow> Some [d]),
      cfg_dns_search = keep_truthy truthy_sl (dns_search s),
      cfg_extra_hosts =
        (case extra_hosts s of
           None \<Rightarrow> None
         | Some (HostList xs) \<Rightarrow> Some xs
         | Some (HostMap es) \<Rightarrow> Some (map (\<lambda>(host, ip). host @ '':'' @ ip) es)),
      cfg_logging =
        (case logging s of
           None \<Rightarrow> None
         | Some l \<Rightarrow>
             Some \<lparr>nlog_type = or_default truthy_str (log_driver l) ''json-file'',
                   nlog_config = or_default (\<lambda>_. True) (log_options l) []\<rparr>),
      cfg_network_mode = Some (opt_networkMode opts)\<rparr>"

subsection \<open>Environment\<close>

text \<open>
  One step of \<open>environment.forEach\<close> on the array form:
  \<open>const [key, ...valueParts] = envVar.split('=')\<close>.
\<close>

definition add_env_entry :: "(string \<times> string) list \<Rightarrow> string \<Rightarrow> (string \<times> string) list" where
  "add_env_entry env envVar =
     (let parts = split_on CHR ''='' envVar; key = hd parts; valueParts = tl parts
      in if truthy_str key
         then set_prop key (or_default truthy_str (Some (join ''='' valueParts)) []) env
         else env)"

definition convertEnvironment :: "environment option \<Rightarrow> (string \<times> string) list" where
  "convertEnvironment env_in =
     (case env_in of
        None \<Rightarrow> []
      | Some (EnvList xs) \<Rightarrow> foldl add_env_entry [] xs
      | Some (EnvMap es) \<Rightarrow> foldl (\<lambda>env (key, v). set_prop key (scalar_str v) env) [] es)"

subsection \<open>Resources\<close>

definition parseCpuValue :: "str_or_num \<Rightarrow> jsnum" where
  "parseCpuValue cpu =
     (case cpu of
        Numv n \<Rightarrow> js_round (js_times n 1000)
      | Str s \<Rightarrow> js_round (js_times (parseFloat s) 1000))"

text \<open>The table \<open>units\<close>.\<close>

definition units :: "(string \<times> rat) list" where
  "units = [(''b'', 1), (''k'', 1024), (''m'', 1024 * 1024), (''g'', 1024 * 1024 * 1024)]"

text \<open>
  The match of \<open>/^(\d+(?:\.\d+)?)\s*([kmg]?)b?$/\<close>: the two groups, or \<open>None\<close>. Every
  repetition of the expression is followed by something that cannot continue it, so the
  match is found by taking each run as long as possible.
\<close>

definition memory_match :: "string \<Rightarrow> (string \<times> string) option" where
  "memory_match s =
     (let ip = takeWhile is_digit s; r1 = dropWhile is_digit s;
          dotted = (r1 \<noteq> [] \<and> hd r1 = CHR ''.'');
          fp = (if dotted then takeWhile is_digit (tl r1) else []);
          r2 = (if dotted then dropWhile is_digit (tl r1) else r1);
          r3 = dropWhile is_space r2;
          unit = (if r3 \<noteq> [] \<and> hd r3 \<in> {CHR ''k'', CHR ''m'', CHR ''g''} then [hd r3] else []);
          r4 = (if unit = [] then r3 else tl r3);
          r5 = (if r4 \<noteq> [] \<and> hd r4 = CHR ''b'' then tl r4 else r4)
      in if ip = [] \<or> (dotted \<and> fp = []) \<or> r5 \<noteq> [] then None
         else Some (if dotted then ip @ CHR ''.'' # fp else ip, unit))"

definition parseMemoryValue ::
  "options \<Rightarrow> str_or_num \<Rightarrow> diagnostics \<Rightarrow> jsnum \<times> diagnostics" where
  "parseMemoryValue opts memory st =
     (case memory of
        Numv n \<Rightarrow> (js_round (js_div (js_div n 1024) 1024), st)
      | Str s \<Rightarrow>
          (case memory_match (toLowerCase s) of
             None \<Rightarrow>
               (or_default truthy_num (Some (opt_default_memory opts)) (Num 128),
                push_warning (''Unable to parse memory value: '' @ s) st)
           | Some (digits, u) \<Rightarrow>
               (let v = parseFloat digits;
                    unit = or_default truthy_str (Some u) ''b''
                in (case map_of units unit of
                      None \<Rightarrow> (NaN, st)
                    | Some mult \<Rightarrow> (js_round (js_div (js_div (js_times v mult) 1024) 1024), st)))))"

text \<open>The block \<open>if (service.deploy?.resources) { ... }\<close> of \<open>convertResources\<close>.\<close>

definition resources_from_deploy ::
  "options \<Rightarrow> compose_resources \<Rightarrow> nomad_resources \<Rightarrow> diagnostics \<Rightarrow> nomad_resources \<times> diagnostics" where
  "resources_from_deploy opts rs r0 st0 =
     (let lc = Option.bind (limits rs) lim_cpus;
          lm = Option.bind (limits rs) lim_memory;
          rc = Option.bind (reservations rs) rsv_cpus;
          rm = Option.bind (reservations rs) rsv_memory;
          r1 = (case keep_truthy truthy_sn lc of
                  None \<Rightarrow> r0
                | Some c \<Rightarrow> r0\<lparr>res_cpu := parseCpuValue c\<rparr>);
          (r2, st2) = (case keep_truthy truthy_sn lm of
                  None \<Rightarrow> (r1, st0)
                | Some m \<Rightarrow> (let (v, st') = parseMemoryValue opts m st0
                             in (r1\<lparr>res_memory := v\<rparr>, st')));
          r3 = (case keep_truthy truthy_sn rc of
                  None \<Rightarrow> r2
                | Some c \<Rightarrow> r2\<lparr>res_cpu := js_max (res_cpu r2) (parseCpuValue c)\<rparr>)
      in (case keep_truthy truthy_sn rm of
            None \<Rightarrow> (r3, st2)
          | Some m \<Rightarrow> (let (v, st') = parseMemoryValue opts m st2
                       in (r3\<lparr>res_memory := js_max (res_memory r3) v\<rparr>, st'))))"

definition convertResources ::
  "options \<Rightarrow> service \<Rightarrow> diagnostics \<Rightarrow> nomad_resources \<times> diagnostics" where
  "convertResources opts s st0 =
     (let r0 = \<lparr>res_cpu = opt_default_cpu opts, res_memory = opt_default_memory opts\<rparr>;
          (r1, st1) = (case Option.bind (deploy s) resources of
                  None \<Rightarrow> (r0, st0)
                | Some rs \<Rightarrow> resources_from_deploy opts rs r0 st0);
          (r2, st2) = (case keep_truthy truthy_sn (mem_limit s) of
                  None \<Rightarrow> (r1, st1)
                | Some m \<Rightarrow> (let (v, st') = parseMemoryValue opts m st1
                             in (r1\<lparr>res_memory := v\<rparr>, st')))
      in (case keep_truthy truthy_sn (cpus s) of
            None \<Rightarrow> (r2, st2)
          | Some c \<Rightarrow> (r2\<lparr>res_cpu := parseCpuValue c\<rparr>, st2)))"


subsection \<open>Networking\<close>

text \<open>One step of \<open>service.ports.forEach((port, index) => ...)\<close>.\<close>

definition convertPort :: "port \<Rightarrow> nomad_port" where
  "convertPort p =
     (case p of
        PortStr str \<Rightarrow>
          (let parts = split_on CHR '':'' str
           in if length parts = 2
              then \<lparr>port_static = Some (parseInt (parts ! 0)), port_to = Some (parseInt (parts ! 1))\<rparr>
              else \<lparr>port_static = None, port_to = Some (parseInt str)\<rparr>)
      | PortObj po \<Rightarrow>
          \<lparr>port_static =
             (case keep_truthy truthy_sn (port_published po) of
                None \<Rightarrow> None
              | Some pub \<Rightarrow> Some (parseInt (sn_str pub))),
           port_to = port_target po\<rparr>)"

definition convertNetworking :: "options \<Rightarrow> service \<Rightarrow> nomad_network" where
  "convertNetworking opts s =
     (let p1 = foldl (\<lambda>acc (index, p). set_prop (''port_'' @ nat_str index) (convertPort p) acc)
                 [] (List.enumerate 0 (or_default (\<lambda>_. True) (ports s) []));
          p2 = foldl (\<lambda>acc (index, e).
                        set_prop (''expose_'' @ nat_str index)
                          \<lparr>port_static = None, port_to = Some (parseInt e)\<rparr> acc)
                 p1 (List.enumerate 0 (or_default (\<lambda>_. True) (expose s) []))
      in \<lparr>nw_mode = opt_networkMode opts, nw_port = p2\<rparr>)"

subsection \<open>Volumes\<close>

text \<open>\<open>parts[2]?.includes('ro') || false\<close>.\<close>

definition ro_flag :: "string list \<Rightarrow> bool" where
  "ro_flag parts = (case nth_opt parts 2 of None \<Rightarrow> False | Some m \<Rightarrow> str_includes m ''ro'')"

definition convertVolume :: "service_volume \<Rightarrow> nomad_volume" where
  "convertVolume v =
     (case v of
        VolStr str \<Rightarrow>
          (let parts = split_on CHR '':'' str
           in \<lparr>nvol_type = (if startsWith (hd parts) ''/'' then ''host'' else ''csi''),
               nvol_source = Some (hd parts),
               nvol_read_only = ro_flag parts\<rparr>)
      | VolObj vo \<Rightarrow>
          \<lparr>nvol_type = (if vol_type vo = Some ''bind'' then ''host'' else ''csi''),
           nvol_source = vol_source vo,
           nvol_read_only = or_default truthy_bool (vol_read_only vo) False\<rparr>)"

text \<open>The second parameter of the source, the document's \<open>volumes\<close>, is not read.\<close>

definition convertVolumes :: "service \<Rightarrow> (string \<times> nomad_volume) list" where
  "convertVolumes s =
     foldl (\<lambda>acc (index, v). set_prop (''volume_'' @ nat_str index) (convertVolume v) acc)
       [] (List.enumerate 0 (or_default (\<lambda>_. True) (volumes s) []))"

definition convertVolumeMount ::
  "(string \<times> volume_mount) list \<Rightarrow> nat \<times> service_volume \<Rightarrow> (string \<times> volume_mount) list" where
  "convertVolumeMount mounts iv =
     (case iv of
        (index, VolStr str) \<Rightarrow>
          (let parts = split_on CHR '':'' str
           in if 2 \<le> length parts
              then set_prop (''mount_'' @ nat_str index)
                     \<lparr>mnt_volume = ''volume_'' @ nat_str index,
                      mnt_destination = nth_opt parts 1,
                      mnt_read_only = ro_flag parts\<rparr> mounts
              else mounts)
      | (index, VolObj vo) \<Rightarrow>
          set_prop (''mount_'' @ nat_str index)
            \<lparr>mnt_volume = ''volume_'' @ nat_str index,
             mnt_destination = vol_target vo,
             mnt_read_only = or_default truthy_bool (vol_read_only vo) False\<rparr> mounts)"

definition convertVolumeMounts :: "service_volume list option \<Rightarrow> (string \<times> volume_mount) list" where
  "convertVolumeMounts vs =
     (case vs of
        None \<Rightarrow> []
      | Some xs \<Rightarrow> foldl convertVolumeMount [] (List.enumerate 0 xs))"

subsection \<open>Health checks and service discovery\<close>

text \<open>\<open>convertHealthCheck\<close> returns \<open>null\<close> (\<open>None\<close>) or a check.\<close>

definition convertHealthCheck :: "healthcheck option \<Rightarrow> nomad_check option" where
  "convertHealthCheck h =
     (case h of
        None \<Rightarrow> None
      | Some hc \<Rightarrow>
          if opt_truthy truthy_bool (hc_disable hc) then None
          else
            (let check = \<lparr>chk_type = ''script'',
                          chk_interval = or_default truthy_str (hc_interval hc) ''30s'',
                          chk_timeout = or_default truthy_str (hc_timeout hc) ''5s'',
                          chk_command = None,
                          chk_args = None\<rparr>
             in (case keep_truthy truthy_sl (hc_test hc) of
                   None \<Rightarrow> Some check
                 | Some (Many t) \<Rightarrow>
                     if nth_opt t 0 = Some ''CMD''
                     then Some (check\<lparr>chk_command := nth_opt t 1, chk_args := Some (drop 2 t)\<rparr>)
                     else if nth_opt t 0 = Some ''CMD-SHELL''
                     then Some (check\<lparr>chk_command := Some ''/bin/sh'',
                                       chk_args := Some [''-c'', join '' '' (drop 1 t)]\<rparr>)
                     else Some check
                 | Some (One str) \<Rightarrow>
                     Some (check\<lparr>chk_command := Some ''/bin/sh'', chk_args := Some [''-c'', str]\<rparr>))))"

text \<open>
  The property \<open>check\<close> of a service-discovery entry: set, to a one-element array, when
  the service has a \<open>healthcheck\<close>.
\<close>

definition check_property :: "service \<Rightarrow> nomad_check option list option" where
  "check_property s =
     (case healthcheck s of
        None \<Rightarrow> None
      | Some hc \<Rightarrow> Some [convertHealthCheck (Some hc)])"

definition convertToNomadServices :: "service \<Rightarrow> string \<Rightarrow> nomad_service list" where
  "convertToNomadServices s serviceName =
     (if ports s = None \<and> expose s = None
      then [\<lparr>srv_name = serviceName, srv_port = None, srv_tags = [''docker-compose''],
              srv_check = check_property s\<rparr>]
      else
        map (\<lambda>index.
               \<lparr>srv_name = serviceName @ ''-'' @ nat_str index,
                srv_port = Some (''port_'' @ nat_str index),
                srv_tags = [''docker-compose''],
                srv_check = check_property s\<rparr>)
          [0 ..< length (or_default (\<lambda>_. True) (ports s) [])
                 + length (or_default (\<lambda>_. True) (expose s) [])])"

subsection \<open>Configs and secrets\<close>

definition ref_name :: "config_ref \<Rightarrow> string" where
  "ref_name r = (case r of RefStr n \<Rightarrow> n | RefObj ro \<Rightarrow> ref_source ro)"

text \<open>\<open>typeof r === 'string' ? r : r.target || r.source\<close>.\<close>

definition ref_destination :: "config_ref \<Rightarrow> string" where
  "ref_destination r =
     (case r of
        RefStr n \<Rightarrow> n
      | RefObj ro \<Rightarrow> or_default truthy_str (ref_target ro) (ref_source ro))"

definition convertConfigsAndSecrets :: "service \<Rightarrow> compose_file \<Rightarrow> template list" where
  \<open>convertConfigsAndSecrets s compose =
     (let t1 = foldl (\<lambda>acc r.
                   (case lookup_entry (c_configs compose) (ref_name r) of
                      None \<Rightarrow> acc
                    | Some composeConfig \<Rightarrow>
                        acc @ [\<lparr>tpl_destination = ''local/'' @ ref_destination r,
                                tpl_embedded_tmpl =
                                  or_default truthy_str (cdef_content composeConfig)
                                    (''# Config: '' @ ref_name r),
                                tpl_change_mode = ''restart''\<rparr>]))
                [] (or_default (\<lambda>_. True) (configs s) [])
      in foldl (\<lambda>acc r.
                  acc @ [\<lparr>tpl_destination = ''secrets/'' @ ref_destination r,
                          tpl_embedded_tmpl =
                            ''{{ with secret "secret/data/'' @ ref_name r
                            @ ''" }}{{ .Data.data.value }}{{ end }}'',
                          tpl_change_mode = ''restart''\<rparr>])
           t1 (or_default (\<lambda>_. True) (secrets s) []))\<close>

subsection \<open>Restart policy\<close>

text \<open>The \<open>switch (service.restart)\<close>.\<close>

definition restart_from_field :: "string \<Rightarrow> nomad_restart \<Rightarrow> nomad_restart" where
  "restart_from_field r rst =
     (if r = ''always'' then rst\<lparr>rst_attempts := Num 0\<rparr>
      else if r = ''on-failure'' then rst\<lparr>rst_mode := ''fail''\<rparr>
      else if r = ''no'' \<or> r = ''unless-stopped''
      then rst\<lparr>rst_attempts := Num 0, rst_mode := ''fail''\<rparr>
      else rst)"

text \<open>The block \<open>if (service.deploy?.restart_policy) { ... }\<close>.\<close>

definition restart_from_policy :: "restart_policy_config \<Rightarrow> nomad_restart \<Rightarrow> nomad_restart" where
  "restart_from_policy policy rst0 =
     (let rst1 = (if rp_condition policy = Some ''none''
                  then rst0\<lparr>rst_attempts := Num 0, rst_mode := ''fail''\<rparr>
                  else if rp_condition policy = Some ''on-failure''
                  then rst0\<lparr>rst_mode := ''fail''\<rparr>
                  else rst0);
          rst2 = (case rp_max_attempts policy of
                    None \<Rightarrow> rst1
                  | Some n \<Rightarrow> rst1\<lparr>rst_attempts := n\<rparr>);
          rst3 = (case keep_truthy truthy_str (rp_delay policy) of
                    None \<Rightarrow> rst2
                  | Some d \<Rightarrow> rst2\<lparr>rst_delay := d\<rparr>)
      in (case keep_truthy truthy_str (rp_window policy) of
            None \<Rightarrow> rst3
          | Some w \<Rightarrow> rst3\<lparr>rst_interval := w\<rparr>))"

definition restart_defaults :: nomad_restart where
  "restart_defaults =
     \<lparr>rst_attempts = Num 3, rst_delay = ''15s'', rst_interval = ''5m'', rst_mode = ''delay''\<rparr>"

definition convertRestartPolicy :: "service \<Rightarrow> nomad_restart" where
  "convertRestartPolicy s =
     (let rst1 = (case keep_truthy truthy_str (restart s) of
                    None \<Rightarrow> restart_defaults
                  | Some r \<Rightarrow> restart_from_field r restart_defaults)
      in (case Option.bind (deploy s) restart_policy of
            None \<Rightarrow> rst1
          | Some policy \<Rightarrow> restart_from_policy policy rst1))"

subsection \<open>Constraints\<close>

definition validOperators :: "string list" where
  "validOperators =
     [''='', ''!='', ''>'', ''>='', ''<'', ''<='', ''distinct_hosts'', ''distinct_property'',
      ''regexp'', ''set_contains'', ''set_contains_all'', ''set_contains_any'', ''version'',
      ''semver'', ''is_set'', ''is_not_set'']"

definition convertConstraint :: "string \<Rightarrow> constraint" where
  "convertConstraint c =
     (let parts = split_ws c
      in if 3 \<le> length parts
         then \<lparr>con_attribute = parts ! 0,
               con_operator = (if parts ! 1 \<in> set validOperators then parts ! 1 else ''=''),
               con_value = join '' '' (drop 2 parts)\<rparr>
         else \<lparr>con_attribute = c, con_operator = ''='', con_value = ''true''\<rparr>)"

definition convertConstraints :: "string list \<Rightarrow> constraint list" where
  "convertConstraints cs = map convertConstraint cs"

subsection \<open>Task and task group\<close>

text \<open>
  \<open>convertServiceToTask\<close>. Its call of \<open>convertToNomadServices\<close> for the health check
  has an empty body and no effect; it is left out.
\<close>

definition convertServiceToTask ::
  "options \<Rightarrow> string \<Rightarrow> service \<Rightarrow> compose_file \<Rightarrow> diagnostics \<Rightarrow> task \<times> diagnostics" where
  "convertServiceToTask opts serviceName s compose st0 =
     (let config = convertDockerConfig opts s;
          env = (case environment s of
                   None \<Rightarrow> None
                 | Some e \<Rightarrow> Some (convertEnvironment (Some e)));
          (res, st1) = convertResources opts s st0;
          templates = convertConfigsAndSecrets s compose;
          st2 = (case depends_on s of
                   None \<Rightarrow> st1
                 | Some d \<Rightarrow>
                     push_warning (''Service dependencies for '' @ quoted serviceName
                       @ '' converted to constraints where possible'') st1)
      in (\<lparr>tsk_driver = ''docker'',
           tsk_config = config,
           tsk_env = env,
           tsk_resources = Some res,
           tsk_template = (if templates = [] then None else Some templates),
           tsk_constraint =
             map_option convertConstraints
               (Option.bind (Option.bind (deploy s) placement) pl_constraints),
           tsk_volume_mount =
             (case volumes s of
                None \<Rightarrow> None
              | Some vs \<Rightarrow> Some (convertVolumeMounts (Some vs)))\<rparr>, st2))"

text \<open>
  The \<open>try\<close> block of \<open>convertServiceToTaskGroup\<close>. \<open>Inl\<close> is an exception with its
  message. On a document of the model the block throws exactly when the service node is
  \<open>null\<close>: its first statement reads \<open>service.deploy\<close>, a \<open>TypeError\<close> (the message is the
  engine's).
\<close>

definition convertServiceToTaskGroup_try ::
  "options \<Rightarrow> string \<Rightarrow> service option \<Rightarrow> compose_file \<Rightarrow> diagnostics
     \<Rightarrow> string + task_group \<times> diagnostics" where
  "convertServiceToTaskGroup_try opts serviceName sv compose st0 =
     (case sv of
        None \<Rightarrow> Inl (''Cannot read properties of null (reading '' @ quoted ''deploy'' @ '')'')
      | Some s \<Rightarrow>
          (let (task, st1) = convertServiceToTask opts serviceName s compose st0;
               nomadServices = convertToNomadServices s serviceName
           in Inr (\<lparr>tg_count = getServiceReplicas s,
                    tg_task = set_prop serviceName task [],
                    tg_network =
                      (if ports s = None \<and> expose s = None then None
                       else Some (convertNetworking opts s)),
                    tg_volume =
                      (if volumes s = None \<and> c_volumes compose = None then None
                       else Some (convertVolumes s)),
                    tg_service = (if nomadServices = [] then None else Some nomadServices),
                    tg_restart =
                      (if opt_truthy truthy_str (restart s)
                          \<or> Option.bind (deploy s) restart_policy \<noteq> None
                       then Some (convertRestartPolicy s) else None)\<rparr>, st1)))"

text \<open>\<open>convertServiceToTaskGroup\<close>: the \<open>catch\<close> records the failure and returns \<open>null\<close>.\<close>

definition convertServiceToTaskGroup ::
  "options \<Rightarrow> string \<Rightarrow> service option \<Rightarrow> compose_file \<Rightarrow> diagnostics
     \<Rightarrow> task_group option \<times> diagnostics" where
  "convertServiceToTaskGroup opts serviceName sv compose st0 =
     (case convertServiceToTaskGroup_try opts serviceName sv compose st0 of
        Inr (taskGroup, st1) \<Rightarrow> (Some taskGroup, st1)
      | Inl message \<Rightarrow>
          (None, push_error (''Failed to convert service '' @ quoted serviceName @ '': '' @ message) st0))"

section \<open>The converter: the job\<close>

text \<open>
  The loop \<open>for (const [serviceName, service] of Object.entries(compose.services))\<close> of
  \<open>convertToNomadJob\<close>, on \<open>jobSpec.group\<close> and the diagnostics.
\<close>

fun convertServices ::
  "options \<Rightarrow> compose_file \<Rightarrow> (string \<times> service option) list
     \<Rightarrow> (string \<times> task_group) list \<times> diagnostics \<Rightarrow> (string \<times> task_group) list \<times> diagnostics" where
  "convertServices opts compose [] (grp, st) = (grp, st)"
| "convertServices opts compose ((serviceName, sv) # rest) (grp, st) =
     (case convertServiceToTaskGroup opts serviceName sv compose st of
        (Some taskGroup, st1) \<Rightarrow>
          convertServices opts compose rest (set_prop serviceName taskGroup grp, st1)
      | (None, st1) \<Rightarrow> convertServices opts compose rest (grp, st1))"

text \<open>An element of \<open>x.nomad.constraints\<close> as text.\<close>

definition constraint_text :: "constraint_in \<Rightarrow> string" where
  "constraint_text c =
     (case c of
        ConStr s \<Rightarrow> s
      | ConObj co \<Rightarrow>
          or_default truthy_str (cl_attribute co) [] @ '' ''
          @ or_default truthy_str (cl_operator co) ''='' @ '' ''
          @ or_default truthy_str (cl_value co) [])"

definition convertToNomadJob ::
  "options \<Rightarrow> compose_file \<Rightarrow> diagnostics \<Rightarrow> nomad_job \<times> diagnostics" where
  "convertToNomadJob opts compose st0 =
     (let jobName = or_default truthy_str (c_name compose) (opt_jobName opts);
          (grp, st1) = (case c_services compose of
                          None \<Rightarrow> ([], st0)
                        | Some svcs \<Rightarrow> convertServices opts compose svcs ([], st0));
          jobSpec = \<lparr>job_id = jobName,
                     job_name = jobName,
                     job_type = ''service'',
                     job_region = opt_region opts,
                     job_namespace = opt_namespace opts,
                     job_datacenters = opt_datacenters opts,
                     job_priority = opt_priority opts,
                     job_group = grp,
                     job_constraint =
                       (case c_x_constraints compose of
                          None \<Rightarrow> None
                        | Some cs \<Rightarrow>
                            Some (convertConstraints
                                    (filter (\<lambda>c. trim c \<noteq> []) (map constraint_text cs))))\<rparr>
      in (set_prop jobName jobSpec [], st1))"

section \<open>The validator\<close>

text \<open>
  A \<open>for ... of Object.entries(m)\<close> loop whose body first reads the property \<open>prop\<close> of
  the entry: on a \<open>null\<close> entry that read throws a \<open>TypeError\<close>. The result is the
  exception, if any, and the diagnostics at that moment.
\<close>

fun validate_entries ::
  "(string \<Rightarrow> 'a \<Rightarrow> diagnostics \<Rightarrow> diagnostics) \<Rightarrow> string \<Rightarrow> (string \<times> 'a option) list
     \<Rightarrow> diagnostics \<Rightarrow> string option \<times> diagnostics" where
  "validate_entries body prop [] st = (None, st)"
| "validate_entries body prop ((n, None) # es) st =
     (Some (''Cannot read properties of null (reading '' @ quoted prop @ '')''), st)"
| "validate_entries body prop ((n, Some v) # es) st =
     validate_entries body prop es (body n v st)"

text \<open>The test of \<open>/^\d+(?::\d+)?(?:\/(?:tcp|udp))?$/\<close>.\<close>

definition port_format :: "string \<Rightarrow> bool" where
  "port_format s =
     (let d1 = takeWhile is_digit s; r1 = dropWhile is_digit s;
          colon = (r1 \<noteq> [] \<and> hd r1 = CHR '':'');
          d2 = (if colon then takeWhile is_digit (tl r1) else []);
          r2 = (if colon then dropWhile is_digit (tl r1) else r1)
      in d1 \<noteq> [] \<and> (colon \<longrightarrow> d2 \<noteq> []) \<and> r2 \<in> {[], ''/tcp'', ''/udp''})"

text \<open>\<open>isValidMemorySpec\<close>: the test of \<open>/^\d+[bkmg]?$/i\<close> on the value as text.\<close>

definition isValidMemorySpec :: "str_or_num \<Rightarrow> bool" where
  "isValidMemorySpec memory =
     (let s = sn_str memory; d = takeWhile is_digit s; r = dropWhile is_digit s
      in d \<noteq> [] \<and> r \<in> {[], ''b'', ''k'', ''m'', ''g'', ''B'', ''K'', ''M'', ''G''})"

definition validateResources :: "string \<Rightarrow> compose_resources \<Rightarrow> diagnostics \<Rightarrow> diagnostics" where
  "validateResources serviceName rs st0 =
     (let st1 = (case limits rs of
                   None \<Rightarrow> st0
                 | Some l \<Rightarrow>
                     (let a = (case keep_truthy truthy_sn (lim_cpus l) of
                                 None \<Rightarrow> st0
                               | Some c \<Rightarrow>
                                   if js_isNaN (parseFloat_sn c) \<or> js_le_zero (parseFloat_sn c)
                                   then push_error (''Service '' @ quoted serviceName
                                          @ '' has invalid CPU limit: '' @ sn_str c) st0
                                   else st0);
                          b = (case keep_truthy truthy_sn (lim_memory l) of
                                 None \<Rightarrow> a
                               | Some m \<Rightarrow>
                                   if isValidMemorySpec m then a
                                   else push_error (''Service '' @ quoted serviceName
                                          @ '' has invalid memory limit: '' @ sn_str m) a)
                      in if lim_devices l
                         then push_warning (''Service '' @ quoted serviceName
                                @ '' uses device limits - ensure Nomad supports required devices'') b
                         else b))
      in (case reservations rs of
            None \<Rightarrow> st1
          | Some r \<Rightarrow>
              (let c = (if rsv_devices r
                        then push_warning (''Service '' @ quoted serviceName
                               @ '' uses device reservations - ensure Nomad supports required devices'') st1
                        else st1)
               in if rsv_generic_resources r
                  then push_warning (''Service '' @ quoted serviceName
                         @ '' uses generic resources - may need custom Nomad configuration'') c
                  else c)))"

text \<open>
  The body of the loop of \<open>validateServices\<close>, for a service that is not \<open>null\<close>, block
  by block as the comments of the source divide it.
\<close>

text \<open>Validate service has image or build.\<close>

definition validate_image_or_build :: "string \<Rightarrow> service \<Rightarrow> diagnostics \<Rightarrow> diagnostics" where
  "validate_image_or_build serviceName s st =
     (if \<not> opt_truthy truthy_str (svc_image s) \<and> \<not> opt_truthy truthy_build (build s)
      then push_error (''Service '' @ quoted serviceName
             @ '' must have either '' @ quoted ''image'' @ '' or '' @ quoted ''build''
             @ '' specified'') st
      else st)"

text \<open>Validate port formats.\<close>

definition validate_port_formats :: "string \<Rightarrow> service \<Rightarrow> diagnostics \<Rightarrow> diagnostics" where
  "validate_port_formats serviceName s st0 =
     foldl (\<lambda>st (index, p).
              (case p of
                 PortStr str \<Rightarrow>
                   if port_format str then st
                   else push_warning (''Service '' @ quoted serviceName @ '' port ''
                          @ nat_str index @ '' has unusual format: '' @ str) st
               | PortObj po \<Rightarrow> st))
       st0 (List.enumerate 0 (or_default (\<lambda>_. True) (ports s) []))"

text \<open>Validate volume mounts.\<close>

definition validate_volume_mounts :: "string \<Rightarrow> service \<Rightarrow> diagnostics \<Rightarrow> diagnostics" where
  "validate_volume_mounts serviceName s st0 =
     foldl (\<lambda>st (index, v).
              (case v of
                 VolStr str \<Rightarrow>
                   if 3 < length (split_on CHR '':'' str)
                   then push_warning (''Service '' @ quoted serviceName @ '' volume ''
                          @ nat_str index
                          @ '' has complex format that may not convert properly: '' @ str) st
                   else st
               | VolObj vo \<Rightarrow> st))
       st0 (List.enumerate 0 (or_default (\<lambda>_. True) (volumes s) []))"

text \<open>Validate \<open>depends_on\<close> references.\<close>

definition validate_depends_on ::
  "compose_file \<Rightarrow> string \<Rightarrow> service \<Rightarrow> diagnostics \<Rightarrow> diagnostics" where
  "validate_depends_on compose serviceName s st0 =
     foldl (\<lambda>st dep.
              if lookup_entry (c_services compose) dep = None
              then push_error (''Service '' @ quoted serviceName
                     @ '' depends on undefined service '' @ quoted dep) st
              else st)
       st0 (case depends_on s of None \<Rightarrow> [] | Some d \<Rightarrow> ref_names d)"

text \<open>Validate network references.\<close>

definition validate_network_refs ::
  "compose_file \<Rightarrow> string \<Rightarrow> service \<Rightarrow> diagnostics \<Rightarrow> diagnostics" where
  "validate_network_refs compose serviceName s st0 =
     foldl (\<lambda>st network.
              if network = ''default'' then st
              else if lookup_entry (c_networks compose) network = None
              then push_warning (''Service '' @ quoted serviceName
                     @ '' references undefined network '' @ quoted network) st
              else st)
       st0 (case networks s of None \<Rightarrow> [] | Some n \<Rightarrow> ref_names n)"

text \<open>Validate config references, and secret references.\<close>

definition validate_config_refs ::
  "compose_file \<Rightarrow> string \<Rightarrow> service \<Rightarrow> diagnostics \<Rightarrow> diagnostics" where
  "validate_config_refs compose serviceName s st0 =
     foldl (\<lambda>st r.
              if lookup_entry (c_configs compose) (ref_name r) = None
              then push_error (''Service '' @ quoted serviceName
                     @ '' references undefined config '' @ quoted (ref_name r)) st
              else st)
       st0 (or_default (\<lambda>_. True) (configs s) [])"

definition validate_secret_refs ::
  "compose_file \<Rightarrow> string \<Rightarrow> service \<Rightarrow> diagnostics \<Rightarrow> diagnostics" where
  "validate_secret_refs compose serviceName s st0 =
     foldl (\<lambda>st r.
              if lookup_entry (c_secrets compose) (ref_name r) = None
              then push_error (''Service '' @ quoted serviceName
                     @ '' references undefined secret '' @ quoted (ref_name r)) st
              else st)
       st0 (or_default (\<lambda>_. True) (secrets s) [])"

text \<open>Check for potentially problematic configurations.\<close>

definition validate_problematic :: "string \<Rightarrow> service \<Rightarrow> diagnostics \<Rightarrow> diagnostics" where
  "validate_problematic serviceName s st0 =
     (let st1 = (if opt_truthy truthy_bool (privileged s)
                 then push_warning (''Service '' @ quoted serviceName
                        @ '' uses privileged mode - ensure Nomad client allows this'') st0
                 else st0);
          st2 = (if pid s = Some ''host''
                 then push_warning (''Service '' @ quoted serviceName
                        @ '' uses host PID namespace - may not be supported in Nomad'') st1
                 else st1)
      in if network_mode s = Some ''host''
         then push_warning (''Service '' @ quoted serviceName
                @ '' uses host networking - ensure Nomad configuration supports this'') st2
         else st2)"

text \<open>Validate resource specifications.\<close>

definition validate_resource_specs :: "string \<Rightarrow> service \<Rightarrow> diagnostics \<Rightarrow> diagnostics" where
  "validate_resource_specs serviceName s st =
     (case Option.bind (deploy s) resources of
        None \<Rightarrow> st
      | Some rs \<Rightarrow> validateResources serviceName rs st)"

definition validateService ::
  "compose_file \<Rightarrow> string \<Rightarrow> service \<Rightarrow> diagnostics \<Rightarrow> diagnostics" where
  "validateService compose serviceName s st =
     validate_resource_specs serviceName s
       (validate_problematic serviceName s
         (validate_secret_refs compose serviceName s
           (validate_config_refs compose serviceName s
             (validate_network_refs compose serviceName s
               (validate_depends_on compose serviceName s
                 (validate_volume_mounts serviceName s
                   (validate_port_formats serviceName s
                     (validate_image_or_build serviceName s st))))))))"

definition validateServices :: "compose_file \<Rightarrow> diagnostics \<Rightarrow> string option \<times> diagnostics" where
  "validateServices compose st =
     (case c_services compose of
        None \<Rightarrow> (None, push_error ''No services defined'' st)
      | Some svcs \<Rightarrow> validate_entries (validateService compose) ''image'' svcs st)"

definition validateNetwork :: "string \<Rightarrow> network_def \<Rightarrow> diagnostics \<Rightarrow> diagnostics" where
  "validateNetwork networkName network st0 =
     (let st1 = (case keep_truthy truthy_str (net_driver network) of
                   None \<Rightarrow> st0
                 | Some d \<Rightarrow>
                     if d \<in> set [''bridge'', ''host'', ''none'', ''overlay''] then st0
                     else push_warning (''Network '' @ quoted networkName @ '' uses driver ''
                            @ quoted d @ '' which may not be supported'') st0)
      in if opt_truthy truthy_external (net_external network)
         then push_warning (''Network '' @ quoted networkName
                @ '' is external - ensure it exists in the Nomad environment'') st1
         else st1)"

definition validateNetworks :: "compose_file \<Rightarrow> diagnostics \<Rightarrow> string option \<times> diagnostics" where
  "validateNetworks compose st =
     (case c_networks compose of
        None \<Rightarrow> (None, st)
      | Some es \<Rightarrow> validate_entries validateNetwork ''driver'' es st)"

definition validateVolume :: "string \<Rightarrow> volume_def \<Rightarrow> diagnostics \<Rightarrow> diagnostics" where
  "validateVolume volumeName volume st0 =
     (let st1 = (case keep_truthy truthy_str (vdef_driver volume) of
                   None \<Rightarrow> st0
                 | Some d \<Rightarrow>
                     if d = ''local'' then st0
                     else push_warning (''Volume '' @ quoted volumeName @ '' uses driver ''
                            @ quoted d @ '' - may need CSI plugin in Nomad'') st0)
      in if opt_truthy truthy_external (vdef_external volume)
         then push_warning (''Volume '' @ quoted volumeName
                @ '' is external - ensure it exists in the Nomad environment'') st1
         else st1)"

definition validateVolumes :: "compose_file \<Rightarrow> diagnostics \<Rightarrow> string option \<times> diagnostics" where
  "validateVolumes compose st =
     (case c_volumes compose of
        None \<Rightarrow> (None, st)
      | Some es \<Rightarrow> validate_entries validateVolume ''driver'' es st)"

definition validateConfig :: "string \<Rightarrow> config_def \<Rightarrow> diagnostics \<Rightarrow> diagnostics" where
  "validateConfig configName config st0 =
     (let st1 = (if \<not> opt_truthy truthy_str (cdef_file config)
                    \<and> \<not> opt_truthy truthy_str (cdef_content config)
                    \<and> \<not> opt_truthy truthy_external (cdef_external config)
                 then push_error (''Config '' @ quoted configName @ '' must specify either ''
                        @ quoted ''file'' @ '', '' @ quoted ''content'' @ '', or ''
                        @ quoted ''external'') st0
                 else st0)
      in if opt_truthy truthy_external (cdef_external config)
         then push_warning (''Config '' @ quoted configName
                @ '' is external - will be converted to Vault template'') st1
         else st1)"

definition validateConfigs :: "compose_file \<Rightarrow> diagnostics \<Rightarrow> string option \<times> diagnostics" where
  "validateConfigs compose st =
     (case c_configs compose of
        None \<Rightarrow> (None, st)
      | Some es \<Rightarrow> validate_entries validateConfig ''file'' es st)"

definition validateSecret :: "string \<Rightarrow> secret_def \<Rightarrow> diagnostics \<Rightarrow> diagnostics" where
  "validateSecret secretName secret st0 =
     (let st1 = (if \<not> opt_truthy truthy_str (sdef_file secret)
                    \<and> \<not> opt_truthy truthy_external (sdef_external secret)
                 then push_error (''Secret '' @ quoted secretName @ '' must specify either ''
                        @ quoted ''file'' @ '' or '' @ quoted ''external'') st0
                 else st0)
      in if opt_truthy truthy_external (sdef_external secret)
         then push_warning (''Secret '' @ quoted secretName
                @ '' is external - will be converted to Vault template'') st1
         else st1)"

definition validateSecrets :: "compose_file \<Rightarrow> diagnostics \<Rightarrow> string option \<times> diagnostics" where
  "validateSecrets compose st =
     (case c_secrets compose of
        None \<Rightarrow> (None, st)
      | Some es \<Rightarrow> validate_entries validateSecret ''file'' es st)"

text \<open>Statements in sequence: an exception skips the rest.\<close>

definition and_then ::
  "string option \<times> diagnostics \<Rightarrow> (diagnostics \<Rightarrow> string option \<times> diagnostics)
     \<Rightarrow> string option \<times> diagnostics" where
  "and_then r f = (case r of (Some e, st) \<Rightarrow> (Some e, st) | (None, st) \<Rightarrow> f st)"

text \<open>
  \<open>validateComposeFile\<close>. The schema check \<open>composeSchema.validate\<close> belongs to the
  validation library, which is not part of the repository: \<open>schema\<close> gives the messages
  of its \<open>error.details\<close> for a document (none when there is no \<open>error\<close>).
\<close>

definition validateComposeFile :: "(compose_file \<Rightarrow> string list) \<Rightarrow> compose_file \<Rightarrow> validation_result" where
  "validateComposeFile schema compose =
     (let st0 = \<lparr>warnings = [], errors = schema compose\<rparr>;
          r = and_then (and_then (and_then (and_then (validateServices compose st0)
                (validateNetworks compose)) (validateVolumes compose))
                (validateConfigs compose)) (validateSecrets compose);
          st = (case r of
                  (None, st1) \<Rightarrow> st1
                | (Some e, st1) \<Rightarrow> push_error (''Validation error: '' @ e) st1)
      in \<lparr>warnings = warnings st, errors = errors st, isValid = (errors st = [])\<rparr>)"

section \<open>The conversion\<close>

text \<open>
  What the YAML parser \<open>load\<close> does with a text: it throws (with a message), or it returns
  something that is not an object (\<open>null\<close>, \<open>undefined\<close>, a scalar), or a document.
\<close>

datatype yaml_result = YamlError string | YamlOther | YamlDoc compose_file

definition supportedVersions :: "string list" where
  "supportedVersions =
     [''3'', ''3.0'', ''3.1'', ''3.2'', ''3.3'', ''3.4'', ''3.5'', ''3.6'', ''3.7'', ''3.8'', ''3.9'']"

text \<open>
  \<open>isSupportedVersion\<close>: a number is in no list of strings and has no method
  \<open>startsWith\<close>, so the call throws a \<open>TypeError\<close>.
\<close>

definition isSupportedVersion :: "str_or_num \<Rightarrow> string + bool" where
  "isSupportedVersion v =
     (case v of
        Str s \<Rightarrow> Inr (s \<in> set supportedVersions \<or> startsWith s ''3.'')
      | Numv n \<Rightarrow> Inl ''version.startsWith is not a function'')"

definition parseCompose ::
  "(string \<Rightarrow> yaml_result) \<Rightarrow> string \<Rightarrow> diagnostics \<Rightarrow> string + compose_file \<times> diagnostics" where
  "parseCompose loadYAML content st =
     (case loadYAML content of
        YamlError m \<Rightarrow> Inl (''Failed to parse YAML: '' @ m)
      | YamlOther \<Rightarrow> Inl (''Failed to parse YAML: '' @ ''Invalid YAML structure'')
      | YamlDoc parsed \<Rightarrow>
          (case keep_truthy truthy_sn (c_version parsed) of
             None \<Rightarrow> Inr (parsed, st)
           | Some v \<Rightarrow>
               (case isSupportedVersion v of
                  Inl m \<Rightarrow> Inl (''Failed to parse YAML: '' @ m)
                | Inr ok \<Rightarrow>
                    Inr (parsed,
                         if ok then st
                         else push_warning (''Docker Compose version '' @ quoted (sn_str v)
                                @ '' may not be fully supported'') st))))"

text \<open>
  The \<open>try\<close> block of \<open>convert\<close>: \<open>Inl\<close> is an exception, with the diagnostics of the
  converter at that moment. The emitter \<open>generateHCL\<close> is not among the sources; it is a
  parameter that returns the text or throws (\<open>Inl\<close>).
\<close>

definition convert_try ::
  "options \<Rightarrow> (string \<Rightarrow> yaml_result) \<Rightarrow> (compose_file \<Rightarrow> string list)
     \<Rightarrow> (nomad_job \<Rightarrow> bool \<Rightarrow> string + string) \<Rightarrow> string
     \<Rightarrow> string \<times> diagnostics + conversion_result" where
  "convert_try opts loadYAML schema generateHCL composeContent =
     (let st0 = \<lparr>warnings = [], errors = []\<rparr>
      in (case parseCompose loadYAML composeContent st0 of
            Inl m \<Rightarrow> Inl (m, st0)
          | Inr (composeData, st1) \<Rightarrow>
              (let st2 = (if opt_skipValidation opts then st1
                          else (let validationResult = validateComposeFile schema composeData
                                in \<lparr>warnings = warnings st1 @ warnings validationResult,
                                    errors = errors st1 @ errors validationResult\<rparr>))
               in if \<not> opt_skipValidation opts \<and> errors st2 \<noteq> []
                  then Inl (''Validation failed: '' @ join '', '' (errors st2), st2)
                  else (let (nomadJob, st3) = convertToNomadJob opts composeData st2
                        in (case generateHCL nomadJob (opt_includeComments opts) of
                              Inl m \<Rightarrow> Inl (m, st3)
                            | Inr text \<Rightarrow>
                                Inr \<lparr>warnings = warnings st3, errors = errors st3,
                                     hcl = text, nomadJob = nomadJob\<rparr>)))))"

text \<open>\<open>convert\<close>: the \<open>catch\<close> turns every exception of the block into a result.\<close>

definition convert ::
  "options \<Rightarrow> (string \<Rightarrow> yaml_result) \<Rightarrow> (compose_file \<Rightarrow> string list)
     \<Rightarrow> (nomad_job \<Rightarrow> bool \<Rightarrow> string + string) \<Rightarrow> string \<Rightarrow> conversion_result" where
  "convert opts loadYAML schema generateHCL composeContent =
     (case convert_try opts loadYAML schema generateHCL composeContent of
        Inr result \<Rightarrow> result
      | Inl (errorMessage, st) \<Rightarrow>
          \<lparr>warnings = warnings st, errors = errors st @ [errorMessage],
           hcl = ''# ERROR: '' @ errorMessage, nomadJob = []\<rparr>)"

section \<open>The synchronous wrapper\<close>

text \<open>
  \<open>convert\<close> is an \<open>async\<close> function without \<open>await\<close>: its body runs when it is called,
  and the promise it returns is fulfilled with the value the body returns. A call
  \<open>promise.then(f)\<close> does not call \<open>f\<close>: it appends a job to the microtask queue, and
  the jobs of the queue run only after the running code has returned. The state of
  \<open>convertComposeSync\<close> is its local variable \<open>result\<close> and the queue; the only callback
  it registers is \<open>r => result = r\<close>, so a job is that assignment with its argument.
\<close>

datatype 'a promise = Fulfilled 'a | Rejected string

datatype job = AssignResult conversion_result

record sync_frame =
  result_var :: "conversion_result option"
  microtasks :: "job list"

definition convert_async ::
  "options \<Rightarrow> (string \<Rightarrow> yaml_result) \<Rightarrow> (compose_file \<Rightarrow> string list)
     \<Rightarrow> (nomad_job \<Rightarrow> bool \<Rightarrow> string + string) \<Rightarrow> string \<Rightarrow> conversion_result promise" where
  "convert_async opts loadYAML schema generateHCL composeContent =
     Fulfilled (convert opts loadYAML schema generateHCL composeContent)"

text \<open>\<open>p.then(r => result = r)\<close>, with no handler for a rejection.\<close>

definition promise_then :: "conversion_result promise \<Rightarrow> sync_frame \<Rightarrow> sync_frame" where
  "promise_then p frame =
     (case p of
        Fulfilled v \<Rightarrow> frame\<lparr>microtasks := microtasks frame @ [AssignResult v]\<rparr>
      | Rejected e \<Rightarrow> frame)"

text \<open>
  \<open>convertComposeSync\<close>: the value it returns (\<open>None\<close> is \<open>undefined\<close>) and the state it
  leaves.
\<close>

definition convertComposeSync ::
  "conversion_options \<Rightarrow> (string \<Rightarrow> yaml_result) \<Rightarrow> (compose_file \<Rightarrow> string list)
     \<Rightarrow> (nomad_job \<Rightarrow> bool \<Rightarrow> string + string) \<Rightarrow> string
     \<Rightarrow> conversion_result option \<times> sync_frame" where
  "convertComposeSync copts loadYAML schema generateHCL composeContent =
     (let converter = Compose2HCLConverter copts;
          frame0 = \<lparr>result_var = None, microtasks = []\<rparr>;
          frame1 = promise_then
                     (convert_async converter loadYAML schema generateHCL composeContent) frame0
      in (result_var frame1, frame1))"

text \<open>What the event loop does once the caller has returned: it runs the queued jobs.\<close>

fun run_job :: "job \<Rightarrow> sync_frame \<Rightarrow> sync_frame" where
  "run_job (AssignResult r) frame = frame\<lparr>result_var := Some r\<rparr>"

definition run_microtasks :: "sync_frame \<Rightarrow> sync_frame" where
  "run_microtasks frame = foldl (\<lambda>f j. run_job j f) (frame\<lparr>microtasks := []\<rparr>) (microtasks frame)"

section \<open>Vocabulary of the statements\<close>

text \<open>
  The empty options object \<open>{}\<close> (the default argument of the constructor), a service
  and a document without any field, and the empty diagnostics.
\<close>

definition no_options :: conversion_options where
  "no_options =
     \<lparr>jobName = None, namespace = None, datacenters = None, region = None, priority = None,
      skipValidation = None, includeComments = None, preserveLabels = None, networkMode = None,
      resourceDefaults = None\<rparr>"

definition empty_service :: service where
  "empty_service =
     \<lparr>svc_image = None, build = None, hostname = None, command = None, entrypoint = None,
      environment = None, working_dir = None, user = None, ports = None, expose = None,
      networks = None, dns = None, dns_search = None, extra_hosts = None, volumes = None,
      deploy = None, mem_limit = None, cpus = None, cap_add = None, cap_drop = None,
      devices = None, security_opt = None, privileged = None, read_only = None,
      healthcheck = None, depends_on = None, restart = None, logging = None, labels = None,
      configs = None, secrets = None, pid = None, network_mode = None\<rparr>"

definition empty_compose :: compose_file where
  "empty_compose =
     \<lparr>c_version = None, c_name = None, c_services = None, c_networks = None, c_volumes = None,
      c_configs = None, c_secrets = None, c_x_constraints = None\<rparr>"

definition no_diagnostics :: diagnostics where
  "no_diagnostics = \<lparr>warnings = [], errors = []\<rparr>"

text \<open>
  \<open>omit_falsy\<close> is the options record in which every explicitly supplied falsy value
  (\<open>""\<close>, \<open>0\<close>, \<open>NaN\<close>, \<open>false\<close>) has been left out.
\<close>

definition omit_falsy :: "conversion_options \<Rightarrow> conversion_options" where
  "omit_falsy opts =
     \<lparr>jobName = keep_truthy truthy_str (jobName opts),
      namespace = keep_truthy truthy_str (namespace opts),
      datacenters = datacenters opts,
      region = keep_truthy truthy_str (region opts),
      priority = keep_truthy truthy_num (priority opts),
      skipValidation = keep_truthy truthy_bool (skipValidation opts),
      includeComments = keep_truthy truthy_bool (includeComments opts),
      preserveLabels = keep_truthy truthy_bool (preserveLabels opts),
      networkMode = keep_truthy truthy_str (networkMode opts),
      resourceDefaults =
        map_option
          (\<lambda>rd. \<lparr>rd_cpu = keep_truthy truthy_num (rd_cpu rd),
                 rd_memory = keep_truthy truthy_num (rd_memory rd)\<rparr>)
          (resourceDefaults opts)\<rparr>"






text \<open>A health check that is disabled, and one that has no \<open>test\<close>.\<close>

definition healthcheck_disabled :: healthcheck where
  "healthcheck_disabled =
     \<lparr>hc_test = Some (Many [''CMD'', ''curl'', ''-f'', ''http://localhost'']),
      hc_interval = None, hc_timeout = None, hc_disable = Some True\<rparr>"

definition healthcheck_without_test :: healthcheck where
  "healthcheck_without_test =
     \<lparr>hc_test = None, hc_interval = None, hc_timeout = None, hc_disable = None\<rparr>"




text \<open>The defects of a service that the validator reports as errors, rule by rule.\<close>

definition lacks_image :: "service \<Rightarrow> bool" where
  "lacks_image s = (\<not> opt_truthy truthy_str (svc_image s) \<and> \<not> opt_truthy truthy_build (build s))"

definition dependencies :: "service \<Rightarrow> string list" where
  "dependencies s = (case depends_on s of None \<Rightarrow> [] | Some d \<Rightarrow> ref_names d)"

definition missing_image_message :: "string \<Rightarrow> string" where
  "missing_image_message n =
     ''Service '' @ quoted n @ '' must have either '' @ quoted ''image'' @ '' or ''
     @ quoted ''build'' @ '' specified''"

definition undefined_dependency_message :: "string \<Rightarrow> string \<Rightarrow> string" where
  "undefined_dependency_message n dep =
     ''Service '' @ quoted n @ '' depends on undefined service '' @ quoted dep"

definition reference_errors :: "compose_file \<Rightarrow> string \<Rightarrow> service \<Rightarrow> string list" where
  "reference_errors d n s =
     map (\<lambda>r. ''Service '' @ quoted n @ '' references undefined config '' @ quoted (ref_name r))
       (filter (\<lambda>r. lookup_entry (c_configs d) (ref_name r) = None)
          (or_default (\<lambda>_. True) (configs s) []))
     @ map (\<lambda>r. ''Service '' @ quoted n @ '' references undefined secret '' @ quoted (ref_name r))
         (filter (\<lambda>r. lookup_entry (c_secrets d) (ref_name r) = None)
            (or_default (\<lambda>_. True) (secrets s) []))"

definition limit_errors :: "string \<Rightarrow> service \<Rightarrow> string list" where
  "limit_errors n s =
     (case Option.bind (Option.bind (deploy s) resources) limits of
        None \<Rightarrow> []
      | Some l \<Rightarrow>
          (case keep_truthy truthy_sn (lim_cpus l) of
             None \<Rightarrow> []
           | Some c \<Rightarrow>
               if js_isNaN (parseFloat_sn c) \<or> js_le_zero (parseFloat_sn c)
               then [''Service '' @ quoted n @ '' has invalid CPU limit: '' @ sn_str c] else [])
          @ (case keep_truthy truthy_sn (lim_memory l) of
               None \<Rightarrow> []
             | Some m \<Rightarrow>
                 if isValidMemorySpec m then []
                 else [''Service '' @ quoted n @ '' has invalid memory limit: '' @ sn_str m]))"

definition service_errors :: "compose_file \<Rightarrow> string \<Rightarrow> service \<Rightarrow> string list" where
  "service_errors d n s =
     (if lacks_image s then [missing_image_message n] else [])
     @ map (undefined_dependency_message n)
         (filter (\<lambda>dep. lookup_entry (c_services d) dep = None) (dependencies s))
     @ reference_errors d n s
     @ limit_errors n s"



text \<open>No entry of a top-level mapping is \<open>null\<close>.\<close>

definition no_null :: "(string \<times> 'a option) list option \<Rightarrow> bool" where
  "no_null m = (case m of None \<Rightarrow> True | Some es \<Rightarrow> list_all (\<lambda>(n, v). v \<noteq> None) es)"






text \<open>
  A document with a service \<open>web\<close> that has neither image nor build, and a service \<open>api\<close>
  that depends on a service \<open>db\<close> which is not declared.
\<close>

definition two_defects :: compose_file where
  "two_defects =
     empty_compose
       \<lparr>c_services :=
          Some [(''web'', Some (empty_service\<lparr>ports := Some [PortStr ''80:80'']\<rparr>)),
                (''api'', Some (empty_service\<lparr>svc_image := Some ''node:16'',
                                               depends_on := Some (NameList [''db''])\<rparr>))]\<rparr>"

section \<open>Properties\<close>

subsection \<open>Option defaulting\<close>

lemma or_default_keep_truthy: "or_default t (keep_truthy t v) d = or_default t v d"
  by (cases v) (simp_all add: or_default_def keep_truthy_def opt_truthy_def)

lemma bind_resource_defaults:
  "Option.bind (map_option (\<lambda>rd. \<lparr>rd_cpu = f (rd_cpu rd), rd_memory = g (rd_memory rd)\<rparr>) r) rd_cpu
     = Option.bind r (\<lambda>rd. f (rd_cpu rd)) \<and>
   Option.bind (map_option (\<lambda>rd. \<lparr>rd_cpu = f (rd_cpu rd), rd_memory = g (rd_memory rd)\<rparr>) r) rd_memory
     = Option.bind r (\<lambda>rd. g (rd_memory rd))"
  by (cases r) simp_all

lemma or_default_nested:
  "or_default t (Option.bind r (\<lambda>rd. keep_truthy t (sel rd))) d = or_default t (Option.bind r sel) d"
  by (cases r) (simp_all add: or_default_keep_truthy)

text \<open>
  C10. Option defaulting discards explicit falsy values: whatever the other options are,
  \<open>priority: 0\<close> gives the effective priority 50, \<open>includeComments: false\<close> gives
  \<open>true\<close>, \<open>preserveLabels: false\<close> gives \<open>true\<close>; and in general the effective
  configuration is the one obtained when every supplied falsy value is left out, so such a
  value cannot be observed.
\<close>

theorem constructor_discards_falsy:
  "opt_priority (Compose2HCLConverter (opts\<lparr>priority := Some (Num 0)\<rparr>)) = Num 50
   \<and> opt_includeComments (Compose2HCLConverter (opts\<lparr>includeComments := Some False\<rparr>)) = True
   \<and> opt_preserveLabels (Compose2HCLConverter (opts\<lparr>preserveLabels := Some False\<rparr>)) = True
   \<and> Compose2HCLConverter (omit_falsy opts) = Compose2HCLConverter opts"
proof -
  have a: "opt_priority (Compose2HCLConverter (opts\<lparr>priority := Some (Num 0)\<rparr>)) = Num 50"
    by (simp add: Compose2HCLConverter_def or_default_def)
  have b: "opt_includeComments (Compose2HCLConverter (opts\<lparr>includeComments := Some False\<rparr>)) = True"
    by (simp add: Compose2HCLConverter_def or_default_def truthy_bool_def)
  have c: "opt_preserveLabels (Compose2HCLConverter (opts\<lparr>preserveLabels := Some False\<rparr>)) = True"
    by (simp add: Compose2HCLConverter_def or_default_def truthy_bool_def)
  have d: "Compose2HCLConverter (omit_falsy opts) = Compose2HCLConverter opts"
    by (simp add: Compose2HCLConverter_def omit_falsy_def or_default_keep_truthy
        bind_resource_defaults or_default_nested)
  from a b c d show ?thesis by blast
qed

subsection \<open>Memory values\<close>













subsection \<open>Health checks\<close>

lemma check_property_of:
  "healthcheck s = Some hc \<Longrightarrow> check_property s = Some [convertHealthCheck (Some hc)]"
  by (simp add: check_property_def)

lemma convertToNomadServices_checks:
  "e \<in> set (convertToNomadServices s serviceName) \<Longrightarrow> srv_check e = check_property s"
  by (auto simp: convertToNomadServices_def split: if_splits)

text \<open>
  C3, as the claim states it, fails. For a service without ports whose health check has no
  \<open>test\<close>, the only service-discovery entry carries a check (a script check with the
  default interval and timeout and no command); for one whose health check is disabled,
  the entry's \<open>check\<close> is the array \<open>[null]\<close>, not an absent property.
\<close>

theorem healthcheck_not_suppressed:
  "map srv_check
     (convertToNomadServices (empty_service\<lparr>healthcheck := Some healthcheck_without_test\<rparr>) ''web'')
     = [Some [Some \<lparr>chk_type = ''script'', chk_interval = ''30s'', chk_timeout = ''5s'',
                     chk_command = None, chk_args = None\<rparr>]]
   \<and> map srv_check
       (convertToNomadServices (empty_service\<lparr>healthcheck := Some healthcheck_disabled\<rparr>) ''web'')
       = [Some [None]]"
  by (simp add: convertToNomadServices_def check_property_def convertHealthCheck_def
      empty_service_def healthcheck_without_test_def healthcheck_disabled_def
      opt_truthy_def keep_truthy_def or_default_def truthy_bool_def)

text \<open>
  C3, amended. For a health check with \<open>disable: true\<close>, \<open>convertHealthCheck\<close> produces no
  check (\<open>null\<close>). For a health check that is not disabled and has no \<open>test\<close> (or an empty
  one), every service-discovery entry of the service carries exactly one check: a script
  check with the interval and the timeout of the health check, \<open>"30s"\<close> and \<open>"5s"\<close> when
  they are not given, and without command or arguments.
\<close>

theorem healthcheck_conversion:
  "(hc_disable hc = Some True \<longrightarrow> convertHealthCheck (Some hc) = None)
   \<and> (healthcheck s = Some hc \<and> hc_disable hc \<noteq> Some True
        \<and> \<not> opt_truthy truthy_sl (hc_test hc) \<longrightarrow>
        (\<forall>e\<in>set (convertToNomadServices s serviceName).
           srv_check e =
             Some [Some \<lparr>chk_type = ''script'',
                          chk_interval = or_default truthy_str (hc_interval hc) ''30s'',
                          chk_timeout = or_default truthy_str (hc_timeout hc) ''5s'',
                          chk_command = None, chk_args = None\<rparr>]))"
proof -
  have a: "hc_disable hc = Some True \<longrightarrow> convertHealthCheck (Some hc) = None"
    by (simp add: convertHealthCheck_def opt_truthy_def truthy_bool_def)
  have b: "convertHealthCheck (Some hc) =
             Some \<lparr>chk_type = ''script'',
                   chk_interval = or_default truthy_str (hc_interval hc) ''30s'',
                   chk_timeout = or_default truthy_str (hc_timeout hc) ''5s'',
                   chk_command = None, chk_args = None\<rparr>"
    if "hc_disable hc \<noteq> Some True" "\<not> opt_truthy truthy_sl (hc_test hc)"
    using that
    by (cases "hc_disable hc")
       (auto simp: convertHealthCheck_def opt_truthy_def truthy_bool_def keep_truthy_def)
  show ?thesis
    using a b by (auto simp: convertToNomadServices_checks check_property_of)
qed

theorem healthcheck_conversion_witness:
  "hc_disable healthcheck_disabled = Some True
   \<and> convertHealthCheck (Some healthcheck_disabled) = None
   \<and> healthcheck (empty_service\<lparr>healthcheck := Some healthcheck_without_test\<rparr>)
       = Some healthcheck_without_test
   \<and> hc_disable healthcheck_without_test \<noteq> Some True
   \<and> \<not> opt_truthy truthy_sl (hc_test healthcheck_without_test)
   \<and> list_all
        (\<lambda>e. srv_check e =
                Some [Some \<lparr>chk_type = ''script'', chk_interval = ''30s'', chk_timeout = ''5s'',
                             chk_command = None, chk_args = None\<rparr>])
        (convertToNomadServices (empty_service\<lparr>healthcheck := Some healthcheck_without_test\<rparr>) ''web'')
   \<and> convertToNomadServices (empty_service\<lparr>healthcheck := Some healthcheck_without_test\<rparr>) ''web'' \<noteq> []"
proof -
  have h1: "hc_disable healthcheck_disabled = Some True"
    by (simp add: healthcheck_disabled_def)
  have h2: "healthcheck (empty_service\<lparr>healthcheck := Some healthcheck_without_test\<rparr>)
              = Some healthcheck_without_test
            \<and> hc_disable healthcheck_without_test \<noteq> Some True
            \<and> \<not> opt_truthy truthy_sl (hc_test healthcheck_without_test)"
    by (simp add: healthcheck_without_test_def opt_truthy_def)
  have ne: "convertToNomadServices (empty_service\<lparr>healthcheck := Some healthcheck_without_test\<rparr>) ''web'' \<noteq> []"
    by (simp add: convertToNomadServices_def empty_service_def)
  have d: "or_default truthy_str (hc_interval healthcheck_without_test) ''30s'' = ''30s''"
       "or_default truthy_str (hc_timeout healthcheck_without_test) ''5s'' = ''5s''"
    by (simp_all add: healthcheck_without_test_def or_default_def)
  from healthcheck_conversion[of healthcheck_disabled
        "empty_service\<lparr>healthcheck := Some healthcheck_without_test\<rparr>" "''web''"] h1
  have w1: "convertHealthCheck (Some healthcheck_disabled) = None" by blast
  from healthcheck_conversion[of healthcheck_without_test
        "empty_service\<lparr>healthcheck := Some healthcheck_without_test\<rparr>" "''web''"] h2
  have w2: "\<forall>e\<in>set (convertToNomadServices (empty_service\<lparr>healthcheck := Some healthcheck_without_test\<rparr>) ''web'').
              srv_check e = Some [Some \<lparr>chk_type = ''script'', chk_interval = ''30s'', chk_timeout = ''5s'',
                             chk_command = None, chk_args = None\<rparr>]"
    unfolding d by blast
  show ?thesis
    using h1 h2 w1 w2 ne by (simp add: list_all_iff)
qed

subsection \<open>Resources\<close>










subsection \<open>Restart policy\<close>

text \<open>
  C5. The restart policy starts from \<open>{attempts: 3, delay: "15s", interval: "5m", mode:
  "delay"}\<close>. Without a \<open>deploy.restart_policy\<close>: \<open>restart: always\<close> gives attempts 0 and
  leaves the mode; \<open>on-failure\<close> gives the mode \<open>"fail"\<close> and leaves the attempts at 3;
  \<open>no\<close> and \<open>unless-stopped\<close> give attempts 0 and the mode \<open>"fail"\<close>. A
  \<open>deploy.restart_policy\<close> then overrides, field by field, what the \<open>restart\<close> field gave
  (\<open>base\<close>): the condition \<open>none\<close> forces attempts 0 and the mode \<open>"fail"\<close>, the condition
  \<open>on-failure\<close> the mode \<open>"fail"\<close>; \<open>max_attempts\<close>, when defined, is the number of
  attempts; \<open>delay\<close> and \<open>window\<close>, when they have a (non-empty) value, are the delay and
  the interval.
\<close>

theorem restart_policy_mapping:
  "(Option.bind (deploy s) restart_policy = None \<longrightarrow>
      (restart s = None \<longrightarrow>
         convertRestartPolicy s =
           \<lparr>rst_attempts = Num 3, rst_delay = ''15s'', rst_interval = ''5m'', rst_mode = ''delay''\<rparr>)
    \<and> (restart s = Some ''always'' \<longrightarrow>
         convertRestartPolicy s =
           \<lparr>rst_attempts = Num 0, rst_delay = ''15s'', rst_interval = ''5m'', rst_mode = ''delay''\<rparr>)
    \<and> (restart s = Some ''on-failure'' \<longrightarrow>
         convertRestartPolicy s =
           \<lparr>rst_attempts = Num 3, rst_delay = ''15s'', rst_interval = ''5m'', rst_mode = ''fail''\<rparr>)
    \<and> (restart s = Some ''no'' \<or> restart s = Some ''unless-stopped'' \<longrightarrow>
         convertRestartPolicy s =
           \<lparr>rst_attempts = Num 0, rst_delay = ''15s'', rst_interval = ''5m'', rst_mode = ''fail''\<rparr>))
   \<and> (Option.bind (deploy s) restart_policy = Some p \<and> base = convertRestartPolicy (s\<lparr>deploy := None\<rparr>) \<longrightarrow>
        rst_attempts (convertRestartPolicy s) =
          (case rp_max_attempts p of
             Some n \<Rightarrow> n
           | None \<Rightarrow> if rp_condition p = Some ''none'' then Num 0 else rst_attempts base)
      \<and> rst_mode (convertRestartPolicy s) =
          (if rp_condition p = Some ''none'' \<or> rp_condition p = Some ''on-failure''
           then ''fail'' else rst_mode base)
      \<and> rst_delay (convertRestartPolicy s) =
          (case rp_delay p of
             Some dl \<Rightarrow> if dl = [] then rst_delay base else dl
           | None \<Rightarrow> rst_delay base)
      \<and> rst_interval (convertRestartPolicy s) =
          (case rp_window p of
             Some w \<Rightarrow> if w = [] then rst_interval base else w
           | None \<Rightarrow> rst_interval base))"
proof -
  have d: "keep_truthy truthy_str (Some x) = (if x = [] then None else Some x)" for x
    by (simp add: keep_truthy_def opt_truthy_def truthy_str_def)
  have n: "keep_truthy truthy_str None = None"
    by (simp add: keep_truthy_def opt_truthy_def)
  have a0: "Option.bind (deploy s) restart_policy = None \<Longrightarrow> restart s = None \<Longrightarrow>
         convertRestartPolicy s =
           \<lparr>rst_attempts = Num 3, rst_delay = ''15s'', rst_interval = ''5m'', rst_mode = ''delay''\<rparr>"
    by (simp add: convertRestartPolicy_def restart_defaults_def n)
  have a1: "Option.bind (deploy s) restart_policy = None \<Longrightarrow> restart s = Some ''always'' \<Longrightarrow>
         convertRestartPolicy s =
           \<lparr>rst_attempts = Num 0, rst_delay = ''15s'', rst_interval = ''5m'', rst_mode = ''delay''\<rparr>"
    by (simp add: convertRestartPolicy_def restart_from_field_def restart_defaults_def d)
  have a2: "Option.bind (deploy s) restart_policy = None \<Longrightarrow> restart s = Some ''on-failure'' \<Longrightarrow>
         convertRestartPolicy s =
           \<lparr>rst_attempts = Num 3, rst_delay = ''15s'', rst_interval = ''5m'', rst_mode = ''fail''\<rparr>"
    by (simp add: convertRestartPolicy_def restart_from_field_def restart_defaults_def d)
  have a3: "Option.bind (deploy s) restart_policy = None \<Longrightarrow> restart s = Some ''no'' \<Longrightarrow>
         convertRestartPolicy s =
           \<lparr>rst_attempts = Num 0, rst_delay = ''15s'', rst_interval = ''5m'', rst_mode = ''fail''\<rparr>"
    by (simp add: convertRestartPolicy_def restart_from_field_def restart_defaults_def d)
  have a4: "Option.bind (deploy s) restart_policy = None \<Longrightarrow> restart s = Some ''unless-stopped'' \<Longrightarrow>
         convertRestartPolicy s =
           \<lparr>rst_attempts = Num 0, rst_delay = ''15s'', rst_interval = ''5m'', rst_mode = ''fail''\<rparr>"
    by (simp add: convertRestartPolicy_def restart_from_field_def restart_defaults_def d)
  have base: "convertRestartPolicy (s\<lparr>deploy := None\<rparr>) =
        (case keep_truthy truthy_str (restart s) of
           None \<Rightarrow> restart_defaults
         | Some r \<Rightarrow> restart_from_field r restart_defaults)"
    by (simp add: convertRestartPolicy_def)
  have b: "convertRestartPolicy s = restart_from_policy p (convertRestartPolicy (s\<lparr>deploy := None\<rparr>))"
    if "Option.bind (deploy s) restart_policy = Some p"
    unfolding base using that by (simp add: convertRestartPolicy_def)
  have c1: "rst_attempts (restart_from_policy p r) =
          (case rp_max_attempts p of
             Some n \<Rightarrow> n
           | None \<Rightarrow> if rp_condition p = Some ''none'' then Num 0 else rst_attempts r)" for r
    by (cases "rp_max_attempts p"; cases "rp_delay p"; cases "rp_window p")
       (simp_all add: restart_from_policy_def d n Let_def)
  have c2: "rst_mode (restart_from_policy p r) =
          (if rp_condition p = Some ''none'' \<or> rp_condition p = Some ''on-failure''
           then ''fail'' else rst_mode r)" for r
    by (cases "rp_max_attempts p"; cases "rp_delay p"; cases "rp_window p")
       (simp_all add: restart_from_policy_def d n Let_def)
  have c3: "rst_delay (restart_from_policy p r) =
          (case rp_delay p of
             Some dl \<Rightarrow> if dl = [] then rst_delay r else dl
           | None \<Rightarrow> rst_delay r)" for r
    by (cases "rp_max_attempts p"; cases "rp_delay p"; cases "rp_window p")
       (simp_all add: restart_from_policy_def d n Let_def)
  have c4: "rst_interval (restart_from_policy p r) =
          (case rp_window p of
             Some w \<Rightarrow> if w = [] then rst_interval r else w
           | None \<Rightarrow> rst_interval r)" for r
    by (cases "rp_max_attempts p"; cases "rp_delay p"; cases "rp_window p")
       (simp_all add: restart_from_policy_def d n Let_def)
  show ?thesis
  proof (intro conjI impI)
    assume h: "Option.bind (deploy s) restart_policy = Some p \<and> base = convertRestartPolicy (s\<lparr>deploy := None\<rparr>)"
    then have e: "convertRestartPolicy s = restart_from_policy p base"
      using b by simp
    show "rst_attempts (convertRestartPolicy s) =
          (case rp_max_attempts p of
             Some n \<Rightarrow> n
           | None \<Rightarrow> if rp_condition p = Some ''none'' then Num 0 else rst_attempts base)"
      unfolding e by (rule c1)
    show "rst_mode (convertRestartPolicy s) =
          (if rp_condition p = Some ''none'' \<or> rp_condition p = Some ''on-failure''
           then ''fail'' else rst_mode base)"
      unfolding e by (rule c2)
    show "rst_delay (convertRestartPolicy s) =
          (case rp_delay p of
             Some dl \<Rightarrow> if dl = [] then rst_delay base else dl
           | None \<Rightarrow> rst_delay base)"
      unfolding e by (rule c3)
    show "rst_interval (convertRestartPolicy s) =
          (case rp_window p of
             Some w \<Rightarrow> if w = [] then rst_interval base else w
           | None \<Rightarrow> rst_interval base)"
      unfolding e by (rule c4)
  next
    assume "Option.bind (deploy s) restart_policy = None" "restart s = None"
    then show "convertRestartPolicy s =
           \<lparr>rst_attempts = Num 3, rst_delay = ''15s'', rst_interval = ''5m'', rst_mode = ''delay''\<rparr>"
      by (rule a0)
  next
    assume "Option.bind (deploy s) restart_policy = None" "restart s = Some ''always''"
    then show "convertRestartPolicy s =
           \<lparr>rst_attempts = Num 0, rst_delay = ''15s'', rst_interval = ''5m'', rst_mode = ''delay''\<rparr>"
      by (rule a1)
  next
    assume "Option.bind (deploy s) restart_policy = None" "restart s = Some ''on-failure''"
    then show "convertRestartPolicy s =
           \<lparr>rst_attempts = Num 3, rst_delay = ''15s'', rst_interval = ''5m'', rst_mode = ''fail''\<rparr>"
      by (rule a2)
  next
    assume "Option.bind (deploy s) restart_policy = None"
      "restart s = Some ''no'' \<or> restart s = Some ''unless-stopped''"
    then show "convertRestartPolicy s =
           \<lparr>rst_attempts = Num 0, rst_delay = ''15s'', rst_interval = ''5m'', rst_mode = ''fail''\<rparr>"
      using a3 a4 by blast
  qed
qed


theorem restart_policy_mapping_witness:
  "Option.bind (deploy (empty_service\<lparr>restart := Some ''unless-stopped''\<rparr>)) restart_policy = None
   \<and> restart (empty_service\<lparr>restart := Some ''unless-stopped''\<rparr>) = Some ''unless-stopped''
   \<and> convertRestartPolicy (empty_service\<lparr>restart := Some ''unless-stopped''\<rparr>) =
        \<lparr>rst_attempts = Num 0, rst_delay = ''15s'', rst_interval = ''5m'', rst_mode = ''fail''\<rparr>
   \<and> Option.bind
        (deploy (empty_service
           \<lparr>restart := Some ''always'',
            deploy := Some \<lparr>replicas = None, resources = None,
                             restart_policy = Some \<lparr>rp_condition = Some ''on-failure'',
                                                     rp_delay = Some ''10s'',
                                                     rp_max_attempts = Some (Num 5),
                                                     rp_window = None\<rparr>,
                             placement = None\<rparr>\<rparr>)) restart_policy
       = Some \<lparr>rp_condition = Some ''on-failure'', rp_delay = Some ''10s'',
               rp_max_attempts = Some (Num 5), rp_window = None\<rparr>
   \<and> convertRestartPolicy
        (empty_service
           \<lparr>restart := Some ''always'',
            deploy := Some \<lparr>replicas = None, resources = None,
                             restart_policy = Some \<lparr>rp_condition = Some ''on-failure'',
                                                     rp_delay = Some ''10s'',
                                                     rp_max_attempts = Some (Num 5),
                                                     rp_window = None\<rparr>,
                             placement = None\<rparr>\<rparr>)
       = \<lparr>rst_attempts = Num 5, rst_delay = ''10s'', rst_interval = ''5m'', rst_mode = ''fail''\<rparr>"
proof -
  let ?s1 = "empty_service\<lparr>restart := Some ''unless-stopped''\<rparr>"
  let ?p = "\<lparr>rp_condition = Some ''on-failure'', rp_delay = Some ''10s'',
               rp_max_attempts = Some (Num 5), rp_window = None\<rparr>"
  let ?s2 = "empty_service
           \<lparr>restart := Some ''always'',
            deploy := Some \<lparr>replicas = None, resources = None,
                             restart_policy = Some ?p,
                             placement = None\<rparr>\<rparr>"
  have h1: "Option.bind (deploy ?s1) restart_policy = None" "restart ?s1 = Some ''unless-stopped''"
    by (simp_all add: empty_service_def)
  have h2: "Option.bind (deploy ?s2) restart_policy = Some ?p"
    by simp
  have base: "convertRestartPolicy (empty_service\<lparr>restart := Some ''always'', deploy := None\<rparr>) =
      \<lparr>rst_attempts = Num 0, rst_delay = ''15s'', rst_interval = ''5m'', rst_mode = ''delay''\<rparr>"
    by (simp add: convertRestartPolicy_def restart_from_field_def restart_defaults_def
        keep_truthy_def opt_truthy_def truthy_str_def empty_service_def)
  have w1: "convertRestartPolicy ?s1 =
        \<lparr>rst_attempts = Num 0, rst_delay = ''15s'', rst_interval = ''5m'', rst_mode = ''fail''\<rparr>"
    using restart_policy_mapping[of ?s1] h1 by blast
  have w2: "rst_attempts (convertRestartPolicy ?s2) = Num 5
      \<and> rst_mode (convertRestartPolicy ?s2) = ''fail''
      \<and> rst_delay (convertRestartPolicy ?s2) = ''10s''
      \<and> rst_interval (convertRestartPolicy ?s2) = ''5m''"
    using restart_policy_mapping[of ?s2 ?p "convertRestartPolicy (?s2\<lparr>deploy := None\<rparr>)"] h2
    by (simp add: base)
  have eq: "r = \<lparr>rst_attempts = rst_attempts r, rst_delay = rst_delay r,
                 rst_interval = rst_interval r, rst_mode = rst_mode r\<rparr>" for r :: nomad_restart
    by simp
  have w3: "convertRestartPolicy ?s2 =
       \<lparr>rst_attempts = Num 5, rst_delay = ''10s'', rst_interval = ''5m'', rst_mode = ''fail''\<rparr>"
    using w2 eq[of "convertRestartPolicy ?s2"] by simp
  show ?thesis
    using h1 h2 w1 w3 by blast
qed

subsection \<open>The synchronous wrapper\<close>

text \<open>
  C9. Whatever the text and the options are, \<open>convertComposeSync\<close> returns \<open>undefined\<close>:
  when it returns, the continuation registered with \<open>then\<close> has not run. It is still a
  job of the microtask queue, and only running the queue, after the return, assigns the
  conversion result to the variable.
\<close>

theorem convertComposeSync_returns_undefined:
  "fst (convertComposeSync copts loadYAML schema generateHCL composeContent) = None
   \<and> microtasks (snd (convertComposeSync copts loadYAML schema generateHCL composeContent))
       = [AssignResult (convert (Compose2HCLConverter copts) loadYAML schema generateHCL composeContent)]
   \<and> result_var (run_microtasks
        (snd (convertComposeSync copts loadYAML schema generateHCL composeContent)))
       = Some (convert (Compose2HCLConverter copts) loadYAML schema generateHCL composeContent)"
  by (simp add: convertComposeSync_def convert_async_def promise_then_def run_microtasks_def)

subsection \<open>Environment\<close>















subsection \<open>Failure of one service\<close>

lemma errors_push [simp]:
  "errors (push_warning w st) = errors st"
  "errors (push_error e st) = errors st @ [e]"
  by (simp_all add: push_warning_def push_error_def)











lemma parseCompose_errors:
  "parseCompose loadYAML content st = Inr (d, st1) \<Longrightarrow> errors st1 = errors st"
  by (auto simp: parseCompose_def split: yaml_result.splits option.splits sum.splits if_splits)








subsection \<open>Validation\<close>

lemma foldl_push_error:
  "errors (foldl (\<lambda>st x. if P x then push_error (m x) st else st) st xs)
     = errors st @ map m (filter P xs)"
  by (induction xs arbitrary: st) simp_all

lemma foldl_keeps_errors:
  "(\<And>st x. errors (f st x) = errors st) \<Longrightarrow> errors (foldl f st xs) = errors st"
  by (induction xs arbitrary: st) simp_all

lemma validate_image_or_build_errors:
  "errors (validate_image_or_build n s st)
     = errors st @ (if lacks_image s then [missing_image_message n] else [])"
  by (simp add: validate_image_or_build_def lacks_image_def missing_image_message_def)

lemma validate_port_formats_errors: "errors (validate_port_formats n s st) = errors st"
  unfolding validate_port_formats_def
  by (rule foldl_keeps_errors) (auto split: port.splits)

lemma validate_volume_mounts_errors: "errors (validate_volume_mounts n s st) = errors st"
  unfolding validate_volume_mounts_def
  by (rule foldl_keeps_errors) (auto split: service_volume.splits)

lemma validate_depends_on_errors:
  "errors (validate_depends_on d n s st)
     = errors st @ map (undefined_dependency_message n)
         (filter (\<lambda>dep. lookup_entry (c_services d) dep = None) (dependencies s))"
  unfolding validate_depends_on_def undefined_dependency_message_def dependencies_def
  by (rule foldl_push_error)

lemma validate_network_refs_errors: "errors (validate_network_refs d n s st) = errors st"
  unfolding validate_network_refs_def
  by (rule foldl_keeps_errors) auto

lemma validate_refs_errors:
  "errors (validate_secret_refs d n s (validate_config_refs d n s st))
     = errors st @ reference_errors d n s"
  unfolding validate_secret_refs_def validate_config_refs_def reference_errors_def
  by (simp add: foldl_push_error)

lemma validate_problematic_errors: "errors (validate_problematic n s st) = errors st"
  by (simp add: validate_problematic_def Let_def)

lemma validateResources_errors:
  "errors (validateResources n rs st) =
     errors st @
     (case limits rs of
        None \<Rightarrow> []
      | Some l \<Rightarrow>
          (case keep_truthy truthy_sn (lim_cpus l) of
             None \<Rightarrow> []
           | Some c \<Rightarrow>
               if js_isNaN (parseFloat_sn c) \<or> js_le_zero (parseFloat_sn c)
               then [''Service '' @ quoted n @ '' has invalid CPU limit: '' @ sn_str c] else [])
          @ (case keep_truthy truthy_sn (lim_memory l) of
               None \<Rightarrow> []
             | Some m \<Rightarrow>
                 if isValidMemorySpec m then []
                 else [''Service '' @ quoted n @ '' has invalid memory limit: '' @ sn_str m]))"
  by (simp add: validateResources_def Let_def split: option.splits)

lemma validate_resource_specs_errors:
  "errors (validate_resource_specs n s st) = errors st @ limit_errors n s"
  by (cases "Option.bind (deploy s) resources")
     (simp_all add: validate_resource_specs_def limit_errors_def validateResources_errors)

lemma validateService_errors:
  "errors (validateService d n s st) = errors st @ service_errors d n s"
  by (simp add: validateService_def service_errors_def validate_resource_specs_errors
      validate_problematic_errors validate_refs_errors validate_network_refs_errors
      validate_depends_on_errors validate_volume_mounts_errors validate_port_formats_errors
      validate_image_or_build_errors)


lemma validate_entries_no_null:
  assumes "list_all (\<lambda>(n, v). v \<noteq> None) es"
    and "\<And>n v st. errors (body n v st) = errors st @ msgs n v"
  shows "\<exists>st'. validate_entries body prop es st = (None, st')
           \<and> errors st' = errors st
                @ concat (map (\<lambda>(n, v). case v of None \<Rightarrow> [] | Some x \<Rightarrow> msgs n x) es)"
  using assms(1)
proof (induction es arbitrary: st)
  case Nil
  show ?case by simp
next
  case (Cons e es)
  obtain n x where e: "e = (n, Some x)"
    using Cons.prems by (cases e) auto
  have "list_all (\<lambda>(n, v). v \<noteq> None) es"
    using Cons.prems by simp
  from Cons.IH[OF this, of "body n x st"] show ?case
    using e by (auto simp: assms(2))
qed


lemma validateServices_no_null:
  assumes "no_null (c_services d)"
  shows "\<exists>st'. validateServices d st = (None, st')
           \<and> errors st' = errors st
                @ (case c_services d of
                     None \<Rightarrow> [''No services defined'']
                   | Some svcs \<Rightarrow>
                       concat (map (\<lambda>(n, sv). case sv of None \<Rightarrow> [] | Some s \<Rightarrow> service_errors d n s) svcs))"
proof (cases "c_services d")
  case None
  then show ?thesis by (simp add: validateServices_def)
next
  case (Some svcs)
  then have "list_all (\<lambda>(n, v). v \<noteq> None) svcs"
    using assms by (simp add: no_null_def)
  from validate_entries_no_null[OF this, of "validateService d" "service_errors d" "''image''" st]
  show ?thesis
    using Some by (simp add: validateServices_def validateService_errors)
qed












subsection \<open>Failure of the conversion\<close>

lemma convert_cases:
  "(\<exists>res. convert_try opts loadYAML schema generateHCL content = Inr res
       \<and> convert opts loadYAML schema generateHCL content = res)
   \<or> (\<exists>m st. convert_try opts loadYAML schema generateHCL content = Inl (m, st)
       \<and> convert opts loadYAML schema generateHCL content
           = \<lparr>warnings = warnings st, errors = errors st @ [m],
              hcl = ''# ERROR: '' @ m, nomadJob = []\<rparr>)"
  by (cases "convert_try opts loadYAML schema generateHCL content")
     (auto simp: convert_def)

lemma convert_failure:
  "convert_try opts loadYAML schema generateHCL content = Inl (m, st) \<Longrightarrow>
   convert opts loadYAML schema generateHCL content
     = \<lparr>warnings = warnings st, errors = errors st @ [m], hcl = ''# ERROR: '' @ m, nomadJob = []\<rparr>"
  by (simp add: convert_def)

lemma convert_try_yaml_error:
  "loadYAML content = YamlError m \<Longrightarrow>
   convert_try opts loadYAML schema generateHCL content
     = Inl (''Failed to parse YAML: '' @ m, \<lparr>warnings = [], errors = []\<rparr>)"
  by (simp add: convert_try_def parseCompose_def)

lemma convert_try_validation_failure:
  assumes "parseCompose loadYAML content no_diagnostics = Inr (d, st1)"
    and "\<not> opt_skipValidation opts"
    and "errors (validateComposeFile schema d) \<noteq> []"
  shows "\<exists>st. convert_try opts loadYAML schema generateHCL content
           = Inl (''Validation failed: '' @ join '', '' (errors (validateComposeFile schema d)), st)
         \<and> errors st = errors (validateComposeFile schema d)"
proof -
  have p: "parseCompose loadYAML content \<lparr>warnings = [], errors = []\<rparr> = Inr (d, st1)"
    using assms(1) by (simp add: no_diagnostics_def)
  have e1: "errors st1 = []"
    using parseCompose_errors[OF assms(1)] by (simp add: no_diagnostics_def)
  show ?thesis
    using assms(2,3) by (simp add: convert_try_def p e1 Let_def)
qed

lemma validate_entries_mono:
  assumes "\<And>n v st. set (errors st) \<subseteq> set (errors (body n v st))"
  shows "set (errors st) \<subseteq> set (errors (snd (validate_entries body prop es st)))"
proof (induction es arbitrary: st)
  case Nil
  show ?case by simp
next
  case (Cons e es)
  obtain n v where e: "e = (n, v)" by (cases e)
  show ?case
  proof (cases v)
    case None
    then show ?thesis using e by simp
  next
    case (Some x)
    have "set (errors st) \<subseteq> set (errors (body n x st))"
      by (rule assms)
    also have "\<dots> \<subseteq> set (errors (snd (validate_entries body prop es (body n x st))))"
      by (rule Cons.IH)
    finally show ?thesis using e Some by simp
  qed
qed

lemma section_mono:
  "set (errors st) \<subseteq> set (errors (snd (validateNetworks d st)))"
  "set (errors st) \<subseteq> set (errors (snd (validateVolumes d st)))"
  "set (errors st) \<subseteq> set (errors (snd (validateConfigs d st)))"
  "set (errors st) \<subseteq> set (errors (snd (validateSecrets d st)))"
proof -
  have n: "set (errors s) \<subseteq> set (errors (validateNetwork k v s))" for k v s
    by (simp add: validateNetwork_def Let_def split: option.splits)
  have v: "set (errors s) \<subseteq> set (errors (validateVolume k x s))" for k x s
    by (simp add: validateVolume_def Let_def split: option.splits)
  have c: "set (errors s) \<subseteq> set (errors (validateConfig k x s))" for k x s
    by (auto simp: validateConfig_def Let_def)
  have t: "set (errors s) \<subseteq> set (errors (validateSecret k x s))" for k x s
    by (auto simp: validateSecret_def Let_def)
  show "set (errors st) \<subseteq> set (errors (snd (validateNetworks d st)))"
    by (cases "c_networks d") (simp_all add: validateNetworks_def validate_entries_mono n)
  show "set (errors st) \<subseteq> set (errors (snd (validateVolumes d st)))"
    by (cases "c_volumes d") (simp_all add: validateVolumes_def validate_entries_mono v)
  show "set (errors st) \<subseteq> set (errors (snd (validateConfigs d st)))"
    by (cases "c_configs d") (simp_all add: validateConfigs_def validate_entries_mono c)
  show "set (errors st) \<subseteq> set (errors (snd (validateSecrets d st)))"
    by (cases "c_secrets d") (simp_all add: validateSecrets_def validate_entries_mono t)
qed

lemma and_then_mono:
  assumes "\<And>s. set (errors s) \<subseteq> set (errors (snd (f s)))"
  shows "set (errors (snd r)) \<subseteq> set (errors (snd (and_then r f)))"
  using assms by (cases r) (auto simp: and_then_def split: option.splits)

lemma validateComposeFile_keeps_service_errors:
  "set (errors (snd (validateServices d \<lparr>warnings = [], errors = schema d\<rparr>)))
     \<subseteq> set (errors (validateComposeFile schema d))"
proof -
  let ?r1 = "validateServices d \<lparr>warnings = [], errors = schema d\<rparr>"
  let ?r2 = "and_then ?r1 (validateNetworks d)"
  let ?r3 = "and_then ?r2 (validateVolumes d)"
  let ?r4 = "and_then ?r3 (validateConfigs d)"
  let ?r5 = "and_then ?r4 (validateSecrets d)"
  have "set (errors (snd ?r1)) \<subseteq> set (errors (snd ?r2))"
    by (rule and_then_mono) (rule section_mono)
  also have "\<dots> \<subseteq> set (errors (snd ?r3))"
    by (rule and_then_mono) (rule section_mono)
  also have "\<dots> \<subseteq> set (errors (snd ?r4))"
    by (rule and_then_mono) (rule section_mono)
  also have "\<dots> \<subseteq> set (errors (snd ?r5))"
    by (rule and_then_mono) (rule section_mono)
  also have "\<dots> \<subseteq> set (errors (validateComposeFile schema d))"
    by (cases ?r5) (auto simp: validateComposeFile_def Let_def split: option.splits)
  finally show ?thesis .
qed

lemma missing_image_reported:
  assumes "c_services d = Some svcs" "no_null (c_services d)"
    and "(n, Some s) \<in> set svcs" "lacks_image s"
  shows "missing_image_message n \<in> set (errors (validateComposeFile schema d))"
proof -
  obtain st' where s: "validateServices d \<lparr>warnings = [], errors = schema d\<rparr> = (None, st')"
    "errors st' = schema d
       @ concat (map (\<lambda>(n, sv). case sv of None \<Rightarrow> [] | Some s \<Rightarrow> service_errors d n s) svcs)"
    using validateServices_no_null[OF assms(2), of "\<lparr>warnings = [], errors = schema d\<rparr>"] assms(1)
    by auto
  have "missing_image_message n \<in> set (service_errors d n s)"
    using assms(4) by (simp add: service_errors_def)
  then have "missing_image_message n \<in> set (errors st')"
    using assms(3) s(2) by force
  then show ?thesis
    using validateComposeFile_keeps_service_errors[of d schema] s(1) by auto
qed

lemma sublist_missing_image_message: "sublist n (missing_image_message n)"
  unfolding missing_image_message_def quoted_def
  by (metis append.assoc sublist_appendI)


text \<open>
  C2. \<open>convert\<close> never throws past its own boundary: whatever the text and the options
  are, it returns a result, either the one of its \<open>try\<close> block or, for every exception
  of that block, the failure result. In the failure result the text begins with
  \<open># ERROR:\<close>, the job model is the empty \<open>{job: {}}\<close>, and the errors are not empty and
  contain the message of the exception. For a text that the YAML parser rejects, that
  message carries the parser's; when validation is not skipped and finds errors, the
  errors of the result are those of the validation followed by the message that joins
  them; and a service that lacks both image and build (in a document whose services are
  not \<open>null\<close>) has the error that names it among them.
\<close>

theorem convert_never_throws:
  "(let r = convert opts loadYAML schema generateHCL content
    in ((\<exists>res. convert_try opts loadYAML schema generateHCL content = Inr res \<and> r = res)
        \<or> (\<exists>e st'. convert_try opts loadYAML schema generateHCL content = Inl (e, st')
             \<and> r = \<lparr>warnings = warnings st', errors = errors st' @ [e],
                     hcl = ''# ERROR: '' @ e, nomadJob = []\<rparr>))
     \<and> (convert_try opts loadYAML schema generateHCL content = Inl (m, st) \<longrightarrow>
          prefix ''# ERROR:'' (hcl r) \<and> nomadJob r = [] \<and> errors r \<noteq> [] \<and> m \<in> set (errors r))
     \<and> (loadYAML content = YamlError ym \<longrightarrow>
          hcl r = ''# ERROR: Failed to parse YAML: '' @ ym \<and> nomadJob r = []
          \<and> errors r = [''Failed to parse YAML: '' @ ym])
     \<and> (parseCompose loadYAML content no_diagnostics = Inr (d, st1)
          \<and> \<not> opt_skipValidation opts \<and> errors (validateComposeFile schema d) \<noteq> [] \<longrightarrow>
          prefix ''# ERROR:'' (hcl r) \<and> nomadJob r = []
          \<and> errors r = errors (validateComposeFile schema d)
               @ [''Validation failed: '' @ join '', '' (errors (validateComposeFile schema d))])
     \<and> (parseCompose loadYAML content no_diagnostics = Inr (d, st1)
          \<and> \<not> opt_skipValidation opts \<and> c_services d = Some svcs \<and> no_null (c_services d)
          \<and> (n, Some s) \<in> set svcs \<and> lacks_image s \<longrightarrow>
          prefix ''# ERROR:'' (hcl r) \<and> nomadJob r = []
          \<and> missing_image_message n \<in> set (errors r)
          \<and> sublist n (missing_image_message n)))"
proof -
  define r where "r = convert opts loadYAML schema generateHCL content"
  have a: "(\<exists>res. convert_try opts loadYAML schema generateHCL content = Inr res \<and> r = res)
        \<or> (\<exists>e st'. convert_try opts loadYAML schema generateHCL content = Inl (e, st')
             \<and> r = \<lparr>warnings = warnings st', errors = errors st' @ [e],
                     hcl = ''# ERROR: '' @ e, nomadJob = []\<rparr>)"
    unfolding r_def by (rule convert_cases)
  have f: "prefix ''# ERROR:'' (hcl r) \<and> nomadJob r = [] \<and> errors r = errors st' @ [e]"
    if "convert_try opts loadYAML schema generateHCL content = Inl (e, st')" for e st'
    unfolding r_def convert_failure[OF that] by simp
  have b: "prefix ''# ERROR:'' (hcl r) \<and> nomadJob r = [] \<and> errors r \<noteq> [] \<and> m \<in> set (errors r)"
    if "convert_try opts loadYAML schema generateHCL content = Inl (m, st)"
    using f[OF that] by simp
  have c: "hcl r = ''# ERROR: Failed to parse YAML: '' @ ym \<and> nomadJob r = []
          \<and> errors r = [''Failed to parse YAML: '' @ ym]"
    if "loadYAML content = YamlError ym"
  proof -
    have "convert_try opts loadYAML schema generateHCL content
            = Inl (''Failed to parse YAML: '' @ ym, \<lparr>warnings = [], errors = []\<rparr>)"
      using that by (rule convert_try_yaml_error)
    from convert_failure[OF this] show ?thesis
      unfolding r_def by simp
  qed
  have v: "prefix ''# ERROR:'' (hcl r) \<and> nomadJob r = []
          \<and> errors r = errors (validateComposeFile schema d)
               @ [''Validation failed: '' @ join '', '' (errors (validateComposeFile schema d))]"
    if h: "parseCompose loadYAML content no_diagnostics = Inr (d, st1)"
      "\<not> opt_skipValidation opts" "errors (validateComposeFile schema d) \<noteq> []"
  proof -
    obtain st' where t: "convert_try opts loadYAML schema generateHCL content
           = Inl (''Validation failed: '' @ join '', '' (errors (validateComposeFile schema d)), st')"
        "errors st' = errors (validateComposeFile schema d)"
      using convert_try_validation_failure[OF h] by blast
    show ?thesis
      using f[OF t(1)] t(2) by simp
  qed
  have w: "prefix ''# ERROR:'' (hcl r) \<and> nomadJob r = []
          \<and> missing_image_message n \<in> set (errors r)
          \<and> sublist n (missing_image_message n)"
    if h: "parseCompose loadYAML content no_diagnostics = Inr (d, st1)"
      "\<not> opt_skipValidation opts" "c_services d = Some svcs" "no_null (c_services d)"
      "(n, Some s) \<in> set svcs" "lacks_image s"
  proof -
    have m: "missing_image_message n \<in> set (errors (validateComposeFile schema d))"
      by (rule missing_image_reported[OF h(3,4,5,6)])
    then have "errors (validateComposeFile schema d) \<noteq> []"
      by auto
    from v[OF h(1,2) this] m sublist_missing_image_message show ?thesis
      by simp
  qed
  show ?thesis
    unfolding Let_def r_def[symmetric] using a b c v w by blast
qed


theorem convert_never_throws_witness:
  "parseCompose (\<lambda>_. YamlDoc two_defects) ''services: ...'' no_diagnostics
     = Inr (two_defects, no_diagnostics)
   \<and> \<not> opt_skipValidation (Compose2HCLConverter no_options)
   \<and> lacks_image (empty_service\<lparr>ports := Some [PortStr ''80:80'']\<rparr>)
   \<and> prefix ''# ERROR:''
        (hcl (convert (Compose2HCLConverter no_options) (\<lambda>_. YamlDoc two_defects) (\<lambda>_. [])
                (\<lambda>_ _. Inr []) ''services: ...''))
   \<and> nomadJob (convert (Compose2HCLConverter no_options) (\<lambda>_. YamlDoc two_defects) (\<lambda>_. [])
                (\<lambda>_ _. Inr []) ''services: ...'') = []
   \<and> missing_image_message ''web''
       \<in> set (errors (convert (Compose2HCLConverter no_options) (\<lambda>_. YamlDoc two_defects)
                        (\<lambda>_. []) (\<lambda>_ _. Inr []) ''services: ...''))
   \<and> sublist ''web'' (missing_image_message ''web'')"
proof -
  let ?web = "empty_service\<lparr>ports := Some [PortStr ''80:80'']\<rparr>"
  let ?api = "empty_service\<lparr>svc_image := Some ''node:16'', depends_on := Some (NameList [''db''])\<rparr>"
  let ?svcs = "[(''web'', Some ?web), (''api'', Some ?api)]"
  let ?r = "convert (Compose2HCLConverter no_options) (\<lambda>_. YamlDoc two_defects) (\<lambda>_. [])
                (\<lambda>_ _. Inr []) ''services: ...''"
  have h1: "parseCompose (\<lambda>_. YamlDoc two_defects) ''services: ...'' no_diagnostics
     = Inr (two_defects, no_diagnostics)"
    by (simp add: parseCompose_def two_defects_def empty_compose_def keep_truthy_def
        opt_truthy_def)
  have h2: "\<not> opt_skipValidation (Compose2HCLConverter no_options)"
    by (simp add: Compose2HCLConverter_def no_options_def or_default_def)
  have h3: "c_services two_defects = Some ?svcs"
    by (simp add: two_defects_def)
  have h4: "no_null (c_services two_defects)"
    by (simp add: no_null_def two_defects_def)
  have h5: "(''web'', Some ?web) \<in> set ?svcs"
    by simp
  have h6: "lacks_image ?web"
    by (simp add: lacks_image_def empty_service_def opt_truthy_def)
  have "prefix ''# ERROR:'' (hcl ?r) \<and> nomadJob ?r = []
          \<and> missing_image_message ''web'' \<in> set (errors ?r)
          \<and> sublist ''web'' (missing_image_message ''web'')"
    by (rule convert_never_throws[of "Compose2HCLConverter no_options" "\<lambda>_. YamlDoc two_defects"
          "\<lambda>_. []" "\<lambda>_ _. Inr []" "''services: ...''" _ _ _ two_defects no_diagnostics ?svcs
          "''web''" ?web,
          unfolded Let_def, THEN conjunct2, THEN conjunct2, THEN conjunct2, THEN conjunct2, THEN mp])
       (intro conjI h1 h2 h3 h4 h5 h6)
  with h1 h2 h6 show ?thesis
    by (intro conjI) (elim conjE, assumption)+
qed

end
